theory Spec2Isabelle
  imports Main "HOL-Library.Word"
begin

unbundle bit_operations_syntax

section \<open>Value model (class Config of configuru.hpp)\<close>

text \<open>
  The header is embedded function by function.  Exceptions become values of a sum type,
  mutation becomes state passing, and heap allocations that the code compares by address
  (the shared array and object payloads, the \<open>DocInfo\<close> of a document) carry an
  allocation number.  \<open>unsigned\<close> line numbers and entry numbers are 32-bit words;
  \<open>(unsigned)-1\<close> is \<open>BAD_ENTRY\<close>.
\<close>

subsection \<open>Documents and provenance\<close>

text \<open>\<open>struct DocInfo\<close> with its \<open>Include\<close> list; \<open>doc_id\<close> is the address a
  \<open>DocInfo_SP\<close> points to.\<close>

datatype DocInfo =
  DocInfo (doc_id: nat) (includers: "(DocInfo \<times> 32 word) list") (filename: string)

definition BAD_ENTRY :: "32 word" where
  "BAD_ENTRY = 0xFFFFFFFF"

definition digit_char :: "nat \<Rightarrow> char" where
  "digit_char d = char_of (48 + d)"

text \<open>\<open>std::to_string\<close> on an unsigned number.\<close>

function to_string :: "nat \<Rightarrow> string" where
  "to_string n =
     (if n < 10 then [digit_char n] else to_string (n div 10) @ [digit_char (n mod 10)])"
  by pat_completeness auto
termination
  by (relation "measure id") auto

declare to_string.simps [simp del]

fun append_include_info :: "DocInfo \<Rightarrow> string \<Rightarrow> string" where
  "append_include_info (DocInfo i incs fn) indent =
     (if incs = [] then []
      else butlast ('', included at:'' @ [CHR 0x0A] @
             concat (map (\<lambda>p. indent @ filename (fst p) @ '':'' @ to_string (unat (snd p)) @
                               append_include_info (fst p) (indent @ ''    '') @ [CHR 0x0A])
                         incs)))"

definition where_is :: "DocInfo option \<Rightarrow> 32 word \<Rightarrow> string" where
  "where_is d l =
     (case d of
        Some di \<Rightarrow>
          filename di @ (if l \<noteq> BAD_ENTRY then '':'' @ to_string (unat l) else []) @
          append_include_info di ''    '' @ '': ''
      | None \<Rightarrow> (if l \<noteq> BAD_ENTRY then ''line '' @ to_string (unat l) @ '': '' else []))"

subsection \<open>The tagged union\<close>

text \<open>
  \<open>struct BadLookupInfo\<close>, which a sentinel and its copies share.  Its first word holds
  the pointer \<open>doc\<close>.  The copy assignment from a sentinel adds 1 to the first word (it
  takes it for the reference count of an array), after which \<open>doc\<close> is not the address of a
  document any more: \<open>bl_overwritten\<close>.
\<close>

record BadLookupInfo =
  bl_doc :: "DocInfo option"
  bl_line :: "32 word"
  bl_key :: string
  bl_overwritten :: bool

record ConfigComments =
  prefix :: "string list"
  postfix :: "string list"
  pre_end_brace :: "string list"

datatype Type =
  Uninitialized | BadLookupType | Null | Bool | Int' | Float | String | Array | Object

datatype 'c Config_Entry =
  Config_Entry (entry_value: 'c) (nr: "32 word") (accessed: bool)

text \<open>
  The union \<open>_u\<close> together with its tag.  \<open>U_i\<close> is the \<open>int64_t\<close>, \<open>U_f\<close> the
  IEEE-754 bit pattern of the \<open>double\<close>.  \<open>U_array\<close> and \<open>U_object\<close> carry the address
  of the reference-counted \<open>ConfigArray\<close> / \<open>ConfigObject\<close> and its contents; the
  \<open>std::map\<close> is the list of its entries in key order.
\<close>

datatype 'c payload =
    U_none
  | U_bad_lookup (bad_lookup: BadLookupInfo)
  | U_null
  | U_b (u_b: bool)
  | U_i (u_i: "64 word")
  | U_f (u_f: "64 word")
  | U_str (u_str: string)
  | U_array (array_ptr: nat) (array_impl: "'c list")
  | U_object (object_ptr: nat) (object_impl: "(string \<times> 'c Config_Entry) list")

datatype Config =
  Config (u: "Config payload") (doc: "DocInfo option") (line: "32 word")
         (comments: "ConfigComments option")

type_synonym ConfigObjectImpl = "(string \<times> Config Config_Entry) list"

definition cfg_type :: "Config \<Rightarrow> Type" where
  "cfg_type c =
     (case u c of
        U_none \<Rightarrow> Uninitialized
      | U_bad_lookup _ \<Rightarrow> BadLookupType
      | U_null \<Rightarrow> Null
      | U_b _ \<Rightarrow> Bool
      | U_i _ \<Rightarrow> Int'
      | U_f _ \<Rightarrow> Float
      | U_str _ \<Rightarrow> String
      | U_array _ _ \<Rightarrow> Array
      | U_object _ _ \<Rightarrow> Object)"

text \<open>The constructors \<open>Config()\<close>, \<open>Config(nullptr)\<close>, \<open>Config(bool)\<close>, \<open>Config(int)\<close>
  (sign-extended into the \<open>int64_t\<close>), \<open>Config(double)\<close> and \<open>Config(std::string)\<close>.\<close>

definition Config_uninit :: Config where
  "Config_uninit = Config U_none None BAD_ENTRY None"

definition Config_null :: Config where
  "Config_null = Config U_null None BAD_ENTRY None"

definition Config_bool :: "bool \<Rightarrow> Config" where
  "Config_bool b = Config (U_b b) None BAD_ENTRY None"

definition Config_int :: "int \<Rightarrow> Config" where
  "Config_int i = Config (U_i (word_of_int i)) None BAD_ENTRY None"

definition Config_double :: "64 word \<Rightarrow> Config" where
  "Config_double f = Config (U_f f) None BAD_ENTRY None"

definition Config_string :: "string \<Rightarrow> Config" where
  "Config_string s = Config (U_str s) None BAD_ENTRY None"

definition is_null :: "Config \<Rightarrow> bool" where "is_null c = (cfg_type c = Null)"
definition is_bool :: "Config \<Rightarrow> bool" where "is_bool c = (cfg_type c = Bool)"
definition is_int :: "Config \<Rightarrow> bool" where "is_int c = (cfg_type c = Int')"
definition is_float :: "Config \<Rightarrow> bool" where "is_float c = (cfg_type c = Float)"
definition is_string :: "Config \<Rightarrow> bool" where "is_string c = (cfg_type c = String)"
definition is_object :: "Config \<Rightarrow> bool" where "is_object c = (cfg_type c = Object)"
definition is_array :: "Config \<Rightarrow> bool" where "is_array c = (cfg_type c = Array)"
definition is_number :: "Config \<Rightarrow> bool" where "is_number c = (is_int c \<or> is_float c)"

definition where_cfg :: "Config \<Rightarrow> string" where
  "where_cfg c = where_is (doc c) (line c)"

subsection \<open>IEEE-754 values\<close>

text \<open>
  A \<open>double\<close> is its 64-bit pattern and a \<open>float\<close> its 32-bit pattern.  Conversions
  round to nearest, ties to even.  \<open>fp_round p w neg num den\<close> is the pattern, in the
  format with \<open>p\<close> significant bits and \<open>w\<close> exponent bits, of the value nearest to
  \<open>num / den\<close> (negated when \<open>neg\<close>); \<open>fp_mant\<close> and \<open>fp_exp\<close> read a finite pattern
  back as \<open>mant * 2 ^ exp\<close>.
\<close>

type_synonym double = "64 word"
type_synonym float = "32 word"

function bitlen :: "int \<Rightarrow> int" where
  "bitlen n = (if n \<le> 0 then 0 else 1 + bitlen (n div 2))"
  by pat_completeness auto
termination
  by (relation "measure nat") auto

declare bitlen.simps [simp del]

definition fp_round :: "nat \<Rightarrow> nat \<Rightarrow> bool \<Rightarrow> int \<Rightarrow> int \<Rightarrow> int" where
  "fp_round p w neg num den =
     (let sgn = (if neg then 2 ^ (w + p - 1) else 0);
          emin = 2 - (2::int) ^ (w - 1)
      in if num = 0 then sgn
         else
           let d = bitlen num - bitlen den;
               e = (if (if 0 \<le> d then den * 2 ^ nat d \<le> num else den \<le> num * 2 ^ nat (- d))
                    then d else d - 1);
               ex = max e emin;
               s = ex - int (p - 1);
               N = (if s < 0 then num * 2 ^ nat (- s) else num);
               D = (if s < 0 then den else den * 2 ^ nat s);
               m = N div D;
               r = N mod D;
               m' = (if D < 2 * r \<or> (2 * r = D \<and> odd m) then m + 1 else m);
               bits = (ex - emin) * 2 ^ (p - 1) + m';
               inf = (2 ^ w - 1) * 2 ^ (p - 1)
           in sgn + min bits inf)"

definition fp_neg :: "nat \<Rightarrow> nat \<Rightarrow> int \<Rightarrow> bool" where
  "fp_neg p w bits = (2 ^ (w + p - 1) \<le> bits)"

definition fp_efield :: "nat \<Rightarrow> nat \<Rightarrow> int \<Rightarrow> int" where
  "fp_efield p w bits = (bits div 2 ^ (p - 1)) mod 2 ^ w"

definition fp_frac :: "nat \<Rightarrow> int \<Rightarrow> int" where
  "fp_frac p bits = bits mod 2 ^ (p - 1)"

definition fp_isfinite :: "nat \<Rightarrow> nat \<Rightarrow> int \<Rightarrow> bool" where
  "fp_isfinite p w bits = (fp_efield p w bits \<noteq> 2 ^ w - 1)"

definition fp_isnan :: "nat \<Rightarrow> nat \<Rightarrow> int \<Rightarrow> bool" where
  "fp_isnan p w bits = (fp_efield p w bits = 2 ^ w - 1 \<and> fp_frac p bits \<noteq> 0)"

definition fp_mant :: "nat \<Rightarrow> nat \<Rightarrow> int \<Rightarrow> int" where
  "fp_mant p w bits =
     (if fp_efield p w bits = 0 then fp_frac p bits else 2 ^ (p - 1) + fp_frac p bits)"

definition fp_exp :: "nat \<Rightarrow> nat \<Rightarrow> int \<Rightarrow> int" where
  "fp_exp p w bits = max (fp_efield p w bits) 1 - (2 ^ (w - 1) - 1) - int (p - 1)"

text \<open>Numerator and denominator of the magnitude of a finite pattern.\<close>

definition fp_num :: "nat \<Rightarrow> nat \<Rightarrow> int \<Rightarrow> int" where
  "fp_num p w bits =
     (if 0 \<le> fp_exp p w bits then fp_mant p w bits * 2 ^ nat (fp_exp p w bits)
      else fp_mant p w bits)"

definition fp_den :: "nat \<Rightarrow> nat \<Rightarrow> int \<Rightarrow> int" where
  "fp_den p w bits = (if 0 \<le> fp_exp p w bits then 1 else 2 ^ nat (- fp_exp p w bits))"

definition double_infinity :: double where
  "double_infinity = 0x7FF0000000000000"

definition double_quiet_NaN :: double where
  "double_quiet_NaN = 0x7FF8000000000000"

definition double_isnan :: "double \<Rightarrow> bool" where
  "double_isnan d = fp_isnan 53 11 (uint d)"

definition double_isfinite :: "double \<Rightarrow> bool" where
  "double_isfinite d = fp_isfinite 53 11 (uint d)"

text \<open>The comparison \<open>==\<close> on doubles: a NaN equals nothing, the two zeros are equal.\<close>

definition double_eq :: "double \<Rightarrow> double \<Rightarrow> bool" where
  "double_eq a b =
     (\<not> double_isnan a \<and> \<not> double_isnan b \<and>
      (a = b \<or> (take_bit 63 a = 0 \<and> take_bit 63 b = 0)))"

definition float_eq :: "float \<Rightarrow> float \<Rightarrow> bool" where
  "float_eq a b =
     (\<not> fp_isnan 24 8 (uint a) \<and> \<not> fp_isnan 24 8 (uint b) \<and>
      (a = b \<or> (take_bit 31 a = 0 \<and> take_bit 31 b = 0)))"

text \<open>\<open>-x\<close>, and \<open>sign * x\<close> for \<open>sign\<close> one of \<open>+1\<close> and \<open>-1\<close>.\<close>

definition double_neg :: "double \<Rightarrow> double" where
  "double_neg d = d XOR 0x8000000000000000"

definition int64_to_double :: "64 word \<Rightarrow> double" where
  "int64_to_double i = word_of_int (fp_round 53 11 (sint i < 0) \<bar>sint i\<bar> 1)"

definition int64_to_float :: "64 word \<Rightarrow> float" where
  "int64_to_float i = word_of_int (fp_round 24 8 (sint i < 0) \<bar>sint i\<bar> 1)"

definition double_to_float :: "double \<Rightarrow> float" where
  "double_to_float d =
     (let b = uint d; sgn = (if fp_neg 53 11 b then 0x80000000 else 0) in
      if fp_isnan 53 11 b then sgn + 0x7FC00000
      else if \<not> fp_isfinite 53 11 b then sgn + 0x7F800000
      else word_of_int (fp_round 24 8 (fp_neg 53 11 b) (fp_num 53 11 b) (fp_den 53 11 b)))"

definition float_to_double :: "float \<Rightarrow> double" where
  "float_to_double f =
     (let b = uint f; sgn = (if fp_neg 24 8 b then 0x8000000000000000 else 0) in
      if fp_isnan 24 8 b then sgn + 0x7FF8000000000000
      else if \<not> fp_isfinite 24 8 b then sgn + 0x7FF0000000000000
      else word_of_int (fp_round 53 11 (fp_neg 24 8 b) (fp_num 24 8 b) (fp_den 24 8 b)))"

text \<open>
  \<open>(int64_t)val\<close> truncates towards zero.  Outside the range of \<open>int64_t\<close> (and for a
  NaN) the C++ conversion is undefined; the value taken here is the one the x86-64
  conversion instruction delivers, \<open>0x8000000000000000\<close>.
\<close>

definition double_to_int64 :: "double \<Rightarrow> 64 word" where
  "double_to_int64 d =
     (let b = uint d; t = fp_num 53 11 b div fp_den 53 11 b in
      if \<not> fp_isfinite 53 11 b then 0x8000000000000000
      else if fp_neg 53 11 b then (if t \<le> 2 ^ 63 then word_of_int (- t) else 0x8000000000000000)
      else (if t < 2 ^ 63 then word_of_int t else 0x8000000000000000))"

subsection \<open>Errors and typed accessors\<close>

text \<open>
  \<open>CONFIGURU_ONERROR\<close> throws a \<open>std::runtime_error\<close> with a message; the parser throws
  \<open>ParseError\<close> with line, column and message.  \<open>Crash\<close> is the end of the process: a
  failed \<open>CONFIGURU_ASSERT\<close> or the use of a null pointer.  \<open>Undefined\<close> is a step
  whose outcome the language does not define and that is not followed further here: a
  read in front of an array, or through a pointer that was overwritten.
\<close>

datatype error =
    RuntimeError string
  | ParseError (pe_line: "32 word") (pe_column: "32 word") (pe_what: string)
  | Crash string
  | Undefined string

definition on_error :: "Config \<Rightarrow> string \<Rightarrow> error" where
  "on_error c msg = RuntimeError (where_cfg c @ msg)"

definition check :: "Config \<Rightarrow> bool \<Rightarrow> string \<Rightarrow> error + unit" where
  "check c b msg = (if \<not> b then Inl (on_error c msg) else Inr ())"

text \<open>The constructor \<open>Config(unsigned long long)\<close>, which refuses a number with the top
  bit set.\<close>

definition Config_unsigned_long_long :: "64 word \<Rightarrow> error + Config" where
  "Config_unsigned_long_long i =
     (if i AND 0x8000000000000000 \<noteq> 0 then
        Inl (RuntimeError ''Integer too large to fit into 63 bits'')
      else Inr (Config (U_i i) None BAD_ENTRY None))"

fun type_str :: "Type \<Rightarrow> string" where
  "type_str Uninitialized = ''uninitialized''"
| "type_str BadLookupType = ''undefined''"
| "type_str Null = ''null''"
| "type_str Bool = ''bool''"
| "type_str Int' = ''integer''"
| "type_str Float = ''float''"
| "type_str String = ''string''"
| "type_str Array = ''array''"
| "type_str Object = ''object''"

definition missing_key_message :: "BadLookupInfo \<Rightarrow> string" where
  "missing_key_message bl =
     where_is (bl_doc bl) (bl_line bl) @ ''Failed to find key '' @ [CHR 0x27] @ bl_key bl @ [CHR 0x27]"

definition type_mismatch_message :: "Type \<Rightarrow> Config \<Rightarrow> string" where
  "type_mismatch_message expected c =
     where_cfg c @ ''Expected '' @ type_str expected @ '', got '' @ type_str (cfg_type c)"

text \<open>
  \<open>assert_type\<close>.  On a sentinel it reads the document through the pointer \<open>doc\<close> of the
  \<open>BadLookupInfo\<close>.
\<close>

definition assert_type :: "Type \<Rightarrow> Config \<Rightarrow> error + unit" where
  "assert_type expected c =
     (if cfg_type c = BadLookupType then
        (if bl_overwritten (bad_lookup (u c)) then
           Inl (Undefined ''where_is reads through the overwritten pointer doc of a BadLookupInfo'')
         else Inl (RuntimeError (missing_key_message (bad_lookup (u c)))))
      else if cfg_type c \<noteq> expected then
        (let message = type_mismatch_message expected c in
         if cfg_type c = Uninitialized \<and> expected = Object then
           Inl (RuntimeError (message @ ''. Did you forget to call Config::object()?''))
         else if cfg_type c = Uninitialized \<and> expected = Array then
           Inl (RuntimeError (message @ ''. Did you forget to call Config::array()?''))
         else Inl (RuntimeError message))
      else Inr ())"

definition as_string :: "Config \<Rightarrow> error + string" where
  "as_string c = (case assert_type String c of Inl e \<Rightarrow> Inl e | Inr _ \<Rightarrow> Inr (u_str (u c)))"

definition as_bool :: "Config \<Rightarrow> error + bool" where
  "as_bool c = (case assert_type Bool c of Inl e \<Rightarrow> Inl e | Inr _ \<Rightarrow> Inr (u_b (u c)))"

text \<open>
  The template parameter of \<open>as_integer<IntT>\<close>: signedness and width in bits.
  \<open>IntT_value t x\<close> is the number \<open>(IntT)x\<close> denotes (the conversion keeps the low
  bits); converting it back, \<open>(int64_t)(IntT)x\<close>, is \<open>word_of_int\<close> of it.
\<close>

datatype IntT = IntT (is_signed: bool) (bits: nat)

definition IntT_value :: "IntT \<Rightarrow> 64 word \<Rightarrow> int" where
  "IntT_value t x =
     (if is_signed t then signed_take_bit (bits t - 1) (sint x) else take_bit (bits t) (sint x))"

definition as_integer :: "IntT \<Rightarrow> Config \<Rightarrow> error + int" where
  "as_integer t c =
     (case assert_type Int' c of
        Inl e \<Rightarrow> Inl e
      | Inr _ \<Rightarrow>
          (case check c (word_of_int (IntT_value t (u_i (u c))) = u_i (u c))
                  ''Integer out of range'' of
             Inl e \<Rightarrow> Inl e
           | Inr _ \<Rightarrow> Inr (IntT_value t (u_i (u c)))))"

definition as_float :: "Config \<Rightarrow> error + float" where
  "as_float c =
     (if cfg_type c = Int' then Inr (int64_to_float (u_i (u c)))
      else (case assert_type Float c of
              Inl e \<Rightarrow> Inl e
            | Inr _ \<Rightarrow> Inr (double_to_float (u_f (u c)))))"

definition as_double :: "Config \<Rightarrow> error + double" where
  "as_double c =
     (if cfg_type c = Int' then Inr (int64_to_double (u_i (u c)))
      else (case assert_type Float c of Inl e \<Rightarrow> Inl e | Inr _ \<Rightarrow> Inr (u_f (u c))))"

definition as_array :: "Config \<Rightarrow> error + Config list" where
  "as_array c = (case assert_type Array c of Inl e \<Rightarrow> Inl e | Inr _ \<Rightarrow> Inr (array_impl (u c)))"

definition as_object :: "Config \<Rightarrow> error + ConfigObjectImpl" where
  "as_object c =
     (case assert_type Object c of Inl e \<Rightarrow> Inl e | Inr _ \<Rightarrow> Inr (object_impl (u c)))"

definition array_size :: "Config \<Rightarrow> error + nat" where
  "array_size c = (case as_array c of Inl e \<Rightarrow> Inl e | Inr a \<Rightarrow> Inr (length a))"

definition object_size :: "Config \<Rightarrow> error + nat" where
  "object_size c = (case as_object c of Inl e \<Rightarrow> Inl e | Inr ob \<Rightarrow> Inr (length ob))"

definition has_key :: "string \<Rightarrow> Config \<Rightarrow> error + bool" where
  "has_key key c =
     (case as_object c of Inl e \<Rightarrow> Inl e | Inr ob \<Rightarrow> Inr (map_of ob key \<noteq> None))"

definition has_comments :: "Config \<Rightarrow> bool" where
  "has_comments c =
     (case comments c of
        None \<Rightarrow> False
      | Some cs \<Rightarrow> \<not> (prefix cs = [] \<and> postfix cs = [] \<and> pre_end_brace cs = []))"

definition empty_comments :: ConfigComments where
  "empty_comments = \<lparr>prefix = [], postfix = [], pre_end_brace = []\<rparr>"

text \<open>\<open>comments() const\<close>: the comments, or the empty ones when there are none.\<close>

definition get_comments :: "Config \<Rightarrow> ConfigComments" where
  "get_comments c = (case comments c of None \<Rightarrow> empty_comments | Some cs \<Rightarrow> cs)"

text \<open>\<open>make_object\<close>, \<open>make_array\<close> and the factories \<open>Config::object()\<close>,
  \<open>Config::array()\<close>; \<open>p\<close> is the address of the payload they allocate.\<close>

definition make_object :: "nat \<Rightarrow> Config \<Rightarrow> error + Config" where
  "make_object p c =
     (case assert_type Uninitialized c of
        Inl e \<Rightarrow> Inl e
      | Inr _ \<Rightarrow> Inr (Config (U_object p []) (doc c) (line c) (comments c)))"

definition make_array :: "nat \<Rightarrow> Config \<Rightarrow> error + Config" where
  "make_array p c =
     (case assert_type Uninitialized c of
        Inl e \<Rightarrow> Inl e
      | Inr _ \<Rightarrow> Inr (Config (U_array p []) (doc c) (line c) (comments c)))"

definition Config_object :: "nat \<Rightarrow> Config" where
  "Config_object p = Config (U_object p []) None BAD_ENTRY None"

definition Config_array :: "nat \<Rightarrow> Config" where
  "Config_array p = Config (U_array p []) None BAD_ENTRY None"

subsection \<open>Assignment\<close>

text \<open>\<open>operator=(Config&&)\<close> and \<open>operator=(const Config&)\<close>: the value left in \<open>*this\<close>.\<close>

definition assign_move :: "Config \<Rightarrow> Config \<Rightarrow> Config" where
  "assign_move this ob =
     Config (u ob)
       (if doc ob \<noteq> None \<or> line ob \<noteq> BAD_ENTRY then doc ob else doc this)
       (if doc ob \<noteq> None \<or> line ob \<noteq> BAD_ENTRY then line ob else line this)
       (if comments ob \<noteq> None then comments ob else comments this)"

text \<open>
  The copy assignment adds 1 to the reference count of the payload it shares from then
  on.  For a sentinel it does so with \<open>_u.array->ref_count += 1\<close>, on the first word of
  the \<open>BadLookupInfo\<close>.  \<open>copy_source\<close> is the source after the assignment; the copy holds
  the same payload.
\<close>

definition copy_source :: "Config \<Rightarrow> Config" where
  "copy_source ob =
     (case u ob of
        U_bad_lookup bl \<Rightarrow>
          Config (U_bad_lookup (bl\<lparr>bl_overwritten := True\<rparr>)) (doc ob) (line ob) (comments ob)
      | _ \<Rightarrow> ob)"

definition assign_copy :: "Config \<Rightarrow> Config \<Rightarrow> Config" where
  "assign_copy this ob =
     Config (u (copy_source ob))
       (if doc ob \<noteq> None then doc ob else if line ob \<noteq> BAD_ENTRY then None else doc this)
       (if doc ob \<noteq> None then line ob else if line ob \<noteq> BAD_ENTRY then line ob else line this)
       (if comments ob \<noteq> None then comments ob else comments this)"

subsection \<open>Objects: \<open>std::map<std::string, ObjectEntry>\<close>\<close>

text \<open>The order of \<open>std::string\<close>: lexicographic on the bytes.\<close>

fun str_less :: "string \<Rightarrow> string \<Rightarrow> bool" where
  "str_less [] [] = False"
| "str_less [] (y # ys) = True"
| "str_less (x # xs) [] = False"
| "str_less (x # xs) (y # ys) =
     (if (of_char x :: nat) < of_char y then True
      else if (of_char y :: nat) < of_char x then False
      else str_less xs ys)"

definition default_entry :: "Config Config_Entry" where
  "default_entry = Config_Entry Config_uninit BAD_ENTRY False"

text \<open>\<open>std::map::operator[]\<close>: the map with a default entry inserted at the key's place
  when the key is absent.\<close>

fun map_subscript :: "string \<Rightarrow> ConfigObjectImpl \<Rightarrow> ConfigObjectImpl" where
  "map_subscript k [] = [(k, default_entry)]"
| "map_subscript k ((k', e) # m) =
     (if k = k' then (k', e) # m
      else if str_less k k' then (k, default_entry) # (k', e) # m
      else (k', e) # map_subscript k m)"

text \<open>Writing through a reference to the entry of a key that is present.\<close>

fun map_store :: "string \<Rightarrow> Config Config_Entry \<Rightarrow> ConfigObjectImpl \<Rightarrow> ConfigObjectImpl" where
  "map_store k e [] = []"
| "map_store k e ((k', e') # m) = (if k = k' then (k', e) # m else (k', e') # map_store k e m)"

definition map_at :: "ConfigObjectImpl \<Rightarrow> string \<Rightarrow> Config Config_Entry" where
  "map_at m k = (case map_of m k of Some e \<Rightarrow> e | None \<Rightarrow> default_entry)"

definition with_object_impl :: "Config \<Rightarrow> ConfigObjectImpl \<Rightarrow> Config" where
  "with_object_impl c m = Config (U_object (object_ptr (u c)) m) (doc c) (line c) (comments c)"

text \<open>
  \<open>const Config& operator[](const std::string&) const\<close>: the value found, and the object
  with the entry's \<open>mutable\<close> accessed flag set.
\<close>

definition subscript_const :: "string \<Rightarrow> Config \<Rightarrow> error + (Config \<times> Config)" where
  "subscript_const key c =
     (case as_object c of
        Inl e \<Rightarrow> Inl e
      | Inr ob \<Rightarrow>
          (case map_of ob key of
             None \<Rightarrow> Inl (on_error c (''Key '' @ [CHR 0x27] @ key @ [CHR 0x27] @ '' not in object''))
           | Some entry \<Rightarrow>
               Inr (entry_value entry,
                    with_object_impl c
                      (map_store key (Config_Entry (entry_value entry) (nr entry) True) ob))))"

text \<open>
  \<open>Config& operator[](const std::string&)\<close>: the object after the call.  The reference
  returned is to the value of the entry of \<open>key\<close>, read by \<open>entry_ref\<close> and assigned
  through by \<open>assign_ref\<close> (a move assignment, as in \<open>cfg["k"] = 5\<close>).
\<close>

definition subscript :: "string \<Rightarrow> Config \<Rightarrow> error + Config" where
  "subscript key c =
     (case as_object c of
        Inl e \<Rightarrow> Inl e
      | Inr ob0 \<Rightarrow>
          (let ob = map_subscript key ob0;
               entry = map_at ob key;
               v = entry_value entry
           in if nr entry = BAD_ENTRY then
                Inr (with_object_impl c
                  (map_store key
                     (Config_Entry
                        (Config (U_bad_lookup \<lparr>bl_doc = doc c, bl_line = line c, bl_key = key,
                                                 bl_overwritten = False\<rparr>)
                                (doc v) (line v) (comments v))
                        (word_of_nat (length ob) - 1) (accessed entry))
                     ob))
              else
                Inr (with_object_impl c
                  (map_store key (Config_Entry v (nr entry) True) ob))))"

definition entry_ref :: "string \<Rightarrow> Config \<Rightarrow> Config" where
  "entry_ref key c = entry_value (map_at (object_impl (u c)) key)"

definition assign_ref :: "string \<Rightarrow> Config \<Rightarrow> Config \<Rightarrow> Config" where
  "assign_ref key rhs c =
     (let entry = map_at (object_impl (u c)) key in
      with_object_impl c
        (map_store key
           (Config_Entry (assign_move (entry_value entry) rhs) (nr entry) (accessed entry))
           (object_impl (u c))))"

text \<open>The statement \<open>cfg[key] = rhs\<close> with \<open>rhs\<close> a temporary.\<close>

definition subscript_assign :: "string \<Rightarrow> Config \<Rightarrow> Config \<Rightarrow> error + Config" where
  "subscript_assign key rhs c =
     (case subscript key c of Inl e \<Rightarrow> Inl e | Inr c' \<Rightarrow> Inr (assign_ref key rhs c'))"

definition push_back :: "Config \<Rightarrow> Config \<Rightarrow> error + Config" where
  "push_back v c =
     (case as_array c of
        Inl e \<Rightarrow> Inl e
      | Inr a \<Rightarrow> Inr (Config (U_array (array_ptr (u c)) (a @ [v])) (doc c) (line c) (comments c)))"

subsection \<open>Deep equality and the dangling-key walk\<close>

lemma size_entry_value: "size (entry_value e) \<le> size_Config_Entry size e"
  by (cases e) simp

lemma size_in_array:
  fixes x :: Config
  shows "x \<in> set xs \<Longrightarrow> size x < Suc (Suc (size_list size xs))"
  by (simp add: less_Suc_eq_le le_SucI size_list_estimation')

lemma size_in_object:
  fixes e :: "Config Config_Entry"
  assumes "(k, e) \<in> set xs"
  shows "size (entry_value e)
           < Suc (Suc (size_list (size_prod (\<lambda>_. 0) (size_Config_Entry size)) xs))"
proof -
  have "size (entry_value e) \<le> size_prod (\<lambda>_. 0) (size_Config_Entry size) (k, e)"
    using size_entry_value [of e] by simp
  with assms
  have "size (entry_value e) \<le> size_list (size_prod (\<lambda>_. 0) (size_Config_Entry size)) xs"
    by (rule size_list_estimation')
  then show ?thesis by simp
qed

function deep_eq :: "Config \<Rightarrow> Config \<Rightarrow> bool" where
  "deep_eq (Config ua da la ca) (Config ub db lb cb) =
     (case (ua, ub) of
        (U_null, U_null) \<Rightarrow> True
      | (U_b x, U_b y) \<Rightarrow> x = y
      | (U_i x, U_i y) \<Rightarrow> x = y
      | (U_f x, U_f y) \<Rightarrow> double_eq x y
      | (U_str x, U_str y) \<Rightarrow> x = y
      | (U_object pa a_object, U_object pb b_object) \<Rightarrow>
          if pa = pb then True
          else if length a_object \<noteq> length b_object then False
          else list_all
                 (\<lambda>p. case map_of b_object (fst p) of
                         None \<Rightarrow> False
                       | Some e \<Rightarrow> deep_eq (entry_value (snd p)) (entry_value e))
                 a_object
      | (U_array pa a_array, U_array pb b_array) \<Rightarrow>
          if pa = pb then True
          else if length a_array \<noteq> length b_array then False
          else list_all (\<lambda>x. deep_eq x x) a_array
      | _ \<Rightarrow> False)"
  by pat_completeness auto
termination
  apply (relation "measure (\<lambda>(a, b). size a)")
    apply simp
   apply (auto intro: size_in_object size_in_array)
  done

declare deep_eq.simps [simp del]

text \<open>
  \<open>check_dangling\<close>: the list of the calls \<open>CONFIGURU_ON_DANGLING(where, key)\<close> it makes,
  in order.
\<close>

function check_dangling :: "Config \<Rightarrow> (string \<times> string) list" where
  "check_dangling (Config uc dc lc cc) =
     (case uc of
        U_object _ ob \<Rightarrow>
          concat (map (\<lambda>p. if accessed (snd p) then check_dangling (entry_value (snd p))
                            else [(where_cfg (entry_value (snd p)), fst p)]) ob)
      | U_array _ a \<Rightarrow> concat (map check_dangling a)
      | _ \<Rightarrow> [])"
  by pat_completeness auto
termination
  apply (relation "measure size")
    apply simp
   apply (auto intro: size_in_object size_in_array)
  done

declare check_dangling.simps [simp del]


subsection \<open>Documents shared by the values\<close>

text \<open>
  In the code the values tagged with a document share its \<open>DocInfo\<close>, and an inclusion of
  the file adds to its \<open>includers\<close> for all of them.  A \<open>DocInfo\<close> is held by value here.
  The parser keeps the documents it has made with their includers in a table, by their
  addresses; \<open>up_to_date\<close> brings a document up to date with the table, with the
  documents of its includers, and \<open>refresh_docs\<close> does so for all documents of a value.
  The chain of the includers of a document is not longer than the table, except where a
  document has become its own includer (then the code cannot print its place at all:
  \<open>append_include_info\<close> does not return).
\<close>

primrec resolve_doc :: "nat \<Rightarrow> (nat \<times> DocInfo) list \<Rightarrow> DocInfo \<Rightarrow> DocInfo" where
  "resolve_doc 0 docs d = d"
| "resolve_doc (Suc n) docs d =
     (case (case map_of docs (doc_id d) of Some d' \<Rightarrow> d' | None \<Rightarrow> d) of
        DocInfo i incs fn \<Rightarrow>
          DocInfo i (map (\<lambda>inc. (resolve_doc n docs (fst inc), snd inc)) incs) fn)"

definition up_to_date :: "(nat \<times> DocInfo) list \<Rightarrow> DocInfo \<Rightarrow> DocInfo" where
  "up_to_date docs d = resolve_doc (Suc (length docs)) docs d"

function refresh_docs :: "(nat \<times> DocInfo) list \<Rightarrow> Config \<Rightarrow> Config" where
  "refresh_docs docs (Config uc dc lc cc) =
     Config
       (case uc of
          U_object a ob \<Rightarrow>
            U_object a
              (map (\<lambda>p. (fst p, Config_Entry (refresh_docs docs (entry_value (snd p)))
                                    (nr (snd p)) (accessed (snd p)))) ob)
        | U_array a xs \<Rightarrow> U_array a (map (refresh_docs docs) xs)
        | U_bad_lookup bl \<Rightarrow> U_bad_lookup (bl\<lparr>bl_doc := map_option (up_to_date docs) (bl_doc bl)\<rparr>)
        | _ \<Rightarrow> uc)
       (map_option (up_to_date docs) dc) lc cc"
  by pat_completeness auto
termination
  apply (relation "measure (\<lambda>(docs, c). size c)")
    apply simp
   apply (auto intro: size_in_object size_in_array)
  done

declare refresh_docs.simps [simp del]
section \<open>Dialects (struct FormatOptions)\<close>

text \<open>The fields \<open>inf\<close> and \<open>nan\<close> of the source are \<open>inf_opt\<close> and \<open>nan_opt\<close> here.\<close>

record FormatOptions =
  indentation :: string
  enforce_indentation :: bool
  empty_file :: bool
  implicit_top_object :: bool
  implicit_top_array :: bool
  single_line_comments :: bool
  block_comments :: bool
  nesting_block_comments :: bool
  inf_opt :: bool
  nan_opt :: bool
  hexadecimal_integers :: bool
  binary_integers :: bool
  unary_plus :: bool
  array_omit_comma :: bool
  array_trailing_comma :: bool
  identifiers_keys :: bool
  object_separator_equal :: bool
  allow_space_before_colon :: bool
  omit_colon_before_object :: bool
  object_omit_comma :: bool
  object_trailing_comma :: bool
  object_duplicate_keys :: bool
  str_csharp_verbatim :: bool
  str_python_multiline :: bool
  str_32bit_unicode :: bool
  str_allow_tab :: bool
  allow_macro :: bool
  write_comments :: bool
  sort_keys :: bool

definition compact :: "FormatOptions \<Rightarrow> bool" where
  "compact opts = (indentation opts = [])"

text \<open>The default member initialisers: the dialect \<open>CFG\<close>.\<close>

definition CFG :: FormatOptions where
  "CFG = \<lparr>
     indentation = [CHR 0x09],
     enforce_indentation = True,
     empty_file = False,
     implicit_top_object = True,
     implicit_top_array = True,
     single_line_comments = True,
     block_comments = True,
     nesting_block_comments = True,
     inf_opt = True,
     nan_opt = True,
     hexadecimal_integers = True,
     binary_integers = True,
     unary_plus = True,
     array_omit_comma = True,
     array_trailing_comma = True,
     identifiers_keys = True,
     object_separator_equal = False,
     allow_space_before_colon = False,
     omit_colon_before_object = False,
     object_omit_comma = True,
     object_trailing_comma = True,
     object_duplicate_keys = False,
     str_csharp_verbatim = True,
     str_python_multiline = True,
     str_32bit_unicode = True,
     str_allow_tab = True,
     allow_macro = True,
     write_comments = True,
     sort_keys = False \<rparr>"

definition make_json_options :: FormatOptions where
  "make_json_options = \<lparr>
     indentation = [CHR 0x09],
     enforce_indentation = False,
     empty_file = False,
     implicit_top_object = False,
     implicit_top_array = False,
     single_line_comments = False,
     block_comments = False,
     nesting_block_comments = False,
     inf_opt = False,
     nan_opt = False,
     hexadecimal_integers = False,
     binary_integers = False,
     unary_plus = False,
     array_omit_comma = False,
     array_trailing_comma = False,
     identifiers_keys = False,
     object_separator_equal = False,
     allow_space_before_colon = True,
     omit_colon_before_object = False,
     object_omit_comma = False,
     object_trailing_comma = False,
     object_duplicate_keys = False,
     str_csharp_verbatim = False,
     str_python_multiline = False,
     str_32bit_unicode = False,
     str_allow_tab = False,
     allow_macro = False,
     write_comments = False,
     sort_keys = False \<rparr>"

definition JSON :: FormatOptions where
  "JSON = make_json_options"

section \<open>Parser\<close>

subsection \<open>Characters\<close>

abbreviation NUL :: char where "NUL \<equiv> CHR 0x00"
abbreviation BSP :: char where "BSP \<equiv> CHR 0x08"
abbreviation TAB :: char where "TAB \<equiv> CHR 0x09"
abbreviation LF :: char where "LF \<equiv> CHR 0x0A"
abbreviation FF :: char where "FF \<equiv> CHR 0x0C"
abbreviation CR :: char where "CR \<equiv> CHR 0x0D"
abbreviation DQ :: char where "DQ \<equiv> CHR 0x22"
abbreviation SQ :: char where "SQ \<equiv> CHR 0x27"
abbreviation BSL :: char where "BSL \<equiv> CHR 0x5C"

text \<open>The code of a character, and the test \<open>lo <= c && c <= hi\<close> for ASCII bounds.\<close>

definition code :: "char \<Rightarrow> int" where
  "code c = of_char c"

definition in_range :: "char \<Rightarrow> char \<Rightarrow> char \<Rightarrow> bool" where
  "in_range lo hi c = (code lo \<le> code c \<and> code c \<le> code hi)"

text \<open>
  The lookup tables \<open>IDENT_STARTERS\<close> and \<open>IDENT_CHARS\<close> the constructor fills.  The
  tables have 256 entries and are indexed by a \<open>char\<close>, which is signed (as on x86-64): a
  byte from \<open>0x80\<close> on is a negative index.  With it \<open>IDENT_STARTERS\<close>, the first member
  of the parser, is read in front of the parser, and what is read there is not known:
  \<open>None\<close>.  \<open>IDENT_CHARS\<close> lies behind \<open>IDENT_STARTERS\<close>, so with a negative index one of
  the entries 128 to 255 of \<open>IDENT_STARTERS\<close> is read, which are false.
\<close>

definition IDENT_STARTERS :: "char \<Rightarrow> bool option" where
  "IDENT_STARTERS c =
     (if 0x80 \<le> code c then None
      else Some (c = CHR ''_'' \<or> in_range (CHR ''a'') (CHR ''z'') c \<or>
                 in_range (CHR ''A'') (CHR ''Z'') c))"

definition out_of_bounds :: error where
  "out_of_bounds = Undefined ''IDENT_STARTERS is read with a negative index''"

definition IDENT_CHARS :: "char \<Rightarrow> bool" where
  "IDENT_CHARS c =
     (c = CHR ''_'' \<or> in_range (CHR ''a'') (CHR ''z'') c \<or> in_range (CHR ''A'') (CHR ''Z'') c \<or>
      in_range (CHR ''0'') (CHR ''9'') c)"

text \<open>\<open>strncmp(a, b, n) == 0\<close> on zero-terminated strings, each given without its
  terminator.\<close>

definition head0 :: "string \<Rightarrow> char" where
  "head0 s = (case s of [] \<Rightarrow> NUL | c # _ \<Rightarrow> c)"

fun strncmp_eq :: "string \<Rightarrow> string \<Rightarrow> nat \<Rightarrow> bool" where
  "strncmp_eq a b 0 = True"
| "strncmp_eq a b (Suc n) =
     (if head0 a \<noteq> head0 b then False
      else if head0 a = NUL then True
      else strncmp_eq (tl a) (tl b) n)"

subsection \<open>UTF-8\<close>

text \<open>\<open>encode_utf8\<close>: the bytes appended to \<open>dst\<close> and their number (0 on error).
  \<open>to_char\<close> is the conversion \<open>(char)\<close> of a 64-bit value.\<close>

definition to_char :: "64 word \<Rightarrow> char" where
  "to_char w = char_of (unat w)"

definition encode_utf8 :: "64 word \<Rightarrow> string \<times> nat" where
  "encode_utf8 c =
     (if c \<le> 0x7F then ([to_char c], 1)
      else if c \<le> 0x7FF then
        ([to_char (0xC0 OR drop_bit 6 c), to_char (0x80 OR (c AND 0x3F))], 2)
      else if c \<le> 0xFFFF then
        ([to_char (0xE0 OR drop_bit 12 c), to_char (0x80 OR (drop_bit 6 c AND 0x3F)),
          to_char (0x80 OR (c AND 0x3F))], 3)
      else if c \<le> 0x1FFFFF then
        ([to_char (0xF0 OR drop_bit 18 c), to_char (0x80 OR (drop_bit 12 c AND 0x3F)),
          to_char (0x80 OR (drop_bit 6 c AND 0x3F)), to_char (0x80 OR (c AND 0x3F))], 4)
      else if c \<le> 0x3FFFFFF then
        ([to_char (0xF8 OR drop_bit 24 c), to_char (0x80 OR drop_bit 18 c),
          to_char (0x80 OR (drop_bit 12 c AND 0x3F)), to_char (0x80 OR (drop_bit 6 c AND 0x3F)),
          to_char (0x80 OR (c AND 0x3F))], 5)
      else if c \<le> 0x7FFFFFFF then
        ([to_char (0xFC OR drop_bit 30 c), to_char (0x80 OR (drop_bit 24 c AND 0x3F)),
          to_char (0x80 OR (drop_bit 18 c AND 0x3F)), to_char (0x80 OR (drop_bit 12 c AND 0x3F)),
          to_char (0x80 OR (drop_bit 6 c AND 0x3F)), to_char (0x80 OR (c AND 0x3F))], 6)
      else ([], 0))"

definition quote :: "char \<Rightarrow> string" where
  "quote c =
     (if c = NUL then ''<eof>''
      else if c = CHR '' '' then ''<space>''
      else if c = LF then [SQ, BSL, CHR ''n'', SQ]
      else if c = TAB then [SQ, BSL, CHR ''t'', SQ]
      else if c = CR then [SQ, BSL, CHR ''r'', SQ]
      else if c = BSP then [SQ, BSL, CHR ''b'', SQ]
      else [SQ, c, SQ])"

subsection \<open>Parser state\<close>

text \<open>
  \<open>struct Parser\<close>.  \<open>inp\<close> is the text \<open>_ptr\<close> points into, \<open>ptr\<close> and \<open>line_start\<close>
  are offsets into it.  \<open>fs\<close> stands for the files \<open>read_text_file\<close> can read: the
  contents of a path, or the text of \<open>strerror(errno)\<close>.  \<open>parsed_files\<close> is the
  \<open>ParseInfo\<close> shared by all parsers of one call, \<open>docs\<close> the documents made for the
  included files, each at its address and with its includers so far, and \<open>next_addr\<close>
  the next address \<open>new\<close> and \<open>make_shared\<close> hand out.
\<close>

record State =
  s_ptr :: nat
  s_line_nr :: "32 word"
  s_line_start :: nat

record Parser =
  options :: FormatOptions
  p_doc :: DocInfo
  fs :: "string \<Rightarrow> string + string"
  inp :: string
  ptr :: nat
  line_nr :: "32 word"
  line_start :: nat
  p_indentation :: int
  parsed_files :: "(string \<times> Config) list"
  docs :: "(nat \<times> DocInfo) list"
  next_addr :: nat

text \<open>\<open>_ptr[i]\<close>; the terminating zero is read at the end of the text.\<close>

definition peek :: "Parser \<Rightarrow> nat \<Rightarrow> char" where
  "peek p i = (if ptr p + i < length (inp p) then inp p ! (ptr p + i) else NUL)"

definition advance :: "nat \<Rightarrow> Parser \<Rightarrow> Parser" where
  "advance n p = p\<lparr>ptr := ptr p + n\<rparr>"

text \<open>Stepping over a line feed: \<open>_ptr += 1; _line_nr += 1; _line_start = _ptr\<close>.\<close>

definition newline :: "nat \<Rightarrow> Parser \<Rightarrow> Parser" where
  "newline n p = p\<lparr>ptr := ptr p + n, line_nr := line_nr p + 1, line_start := ptr p + n\<rparr>"

definition get_state :: "Parser \<Rightarrow> State" where
  "get_state p = \<lparr>s_ptr = ptr p, s_line_nr = line_nr p, s_line_start = line_start p\<rparr>"

definition set_state :: "State \<Rightarrow> Parser \<Rightarrow> Parser" where
  "set_state s p = p\<lparr>ptr := s_ptr s, line_nr := s_line_nr s, line_start := s_line_start s\<rparr>"

definition column :: "Parser \<Rightarrow> 32 word" where
  "column p = word_of_nat (ptr p - line_start p + 1)"

definition tag :: "Parser \<Rightarrow> Config \<Rightarrow> Config" where
  "tag p var = Config (u var) (Some (p_doc p)) (line_nr p) (comments var)"

text \<open>
  \<open>throw_error\<close>: the \<open>ParseError\<close> thrown, with the message \<open>what()\<close> returns: the
  position, the include chain, the description, and the offending line with a caret
  under the column.
\<close>

definition end_of_line :: "Parser \<Rightarrow> nat" where
  "end_of_line p =
     ptr p + length (takeWhile (\<lambda>c. c \<noteq> NUL \<and> c \<noteq> CR \<and> c \<noteq> LF) (drop (ptr p) (inp p)))"

definition orientation :: "Parser \<Rightarrow> string" where
  "orientation p =
     concat (map (\<lambda>c. if c = TAB then ''    '' else [c])
               (take (end_of_line p - line_start p) (drop (line_start p) (inp p)))) @ [LF] @
     concat (map (\<lambda>c. if c = TAB then ''    '' else '' '')
               (take (ptr p - line_start p) (drop (line_start p) (inp p)))) @ ''^''"

definition throw_error :: "Parser \<Rightarrow> string \<Rightarrow> error" where
  "throw_error p desc =
     ParseError (line_nr p) (column p)
       (filename (p_doc p) @ '':'' @ to_string (unat (line_nr p)) @ '':'' @
        to_string (unat (column p)) @ append_include_info (p_doc p) ''    '' @ '': '' @
        desc @ [LF] @ orientation p)"

text \<open>\<open>std::to_string\<close> and \<open>%d\<close> on a signed number.\<close>

definition int_to_string :: "int \<Rightarrow> string" where
  "int_to_string i = (if i < 0 then ''-'' @ to_string (nat (- i)) else to_string (nat i))"

text \<open>\<open>throw_indentation_error\<close> throws only when indentation is enforced; \<open>None\<close> is
  its return without a throw.\<close>

definition throw_indentation_error :: "Parser \<Rightarrow> int \<Rightarrow> int \<Rightarrow> error option" where
  "throw_indentation_error p found_tabs expected_tabs =
     (if enforce_indentation (options p) then
        Some (throw_error p (''Bad indentation: expected '' @ int_to_string found_tabs @
                             '' tabs, found '' @ int_to_string expected_tabs))
      else None)"

definition parse_assert :: "Parser \<Rightarrow> bool \<Rightarrow> string \<Rightarrow> error + unit" where
  "parse_assert p b error_msg = (if \<not> b then Inl (throw_error p error_msg) else Inr ())"

definition swallow :: "char \<Rightarrow> Parser \<Rightarrow> error + Parser" where
  "swallow c p =
     (if peek p 0 = c then Inr (advance 1 p) else Inl (throw_error p (''Expected '' @ quote c)))"

definition try_swallow :: "string \<Rightarrow> Parser \<Rightarrow> bool \<times> Parser" where
  "try_swallow str p =
     (if strncmp_eq str (drop (ptr p) (inp p)) (length str) then (True, advance (length str) p)
      else (False, p))"

definition is_reserved_identifier :: "Parser \<Rightarrow> bool" where
  "is_reserved_identifier p =
     (if strncmp_eq (drop (ptr p) (inp p)) ''true'' 4 \<or> strncmp_eq (drop (ptr p) (inp p)) ''null'' 4
      then \<not> IDENT_CHARS (peek p 4)
      else if strncmp_eq (drop (ptr p) (inp p)) ''false'' 5 then \<not> IDENT_CHARS (peek p 5)
      else False)"

subsection \<open>White space and comments\<close>

text \<open>The loop of a block comment, entered after its opening \<open>/*\<close>.\<close>

function block_comment :: "State \<Rightarrow> 32 word \<Rightarrow> Parser \<Rightarrow> error + Parser" where
  "block_comment state nesting p =
     (if peek p 0 = NUL then Inl (throw_error (set_state state p) ''Non-ending /* comment'')
      else if peek p 0 = CHR ''/'' \<and> peek p 1 = CHR ''*'' then
        (if \<not> nesting_block_comments (options p) then
           Inl (throw_error (advance 2 p) ''Nesting comments (/* /* */ */) forbidden.'')
         else if nesting + 1 \<noteq> 0 then block_comment state (nesting + 1) (advance 2 p)
         else Inr (advance 2 p))
      else if peek p 0 = CHR ''*'' \<and> peek p 1 = CHR ''/'' then
        (if nesting - 1 \<noteq> 0 then block_comment state (nesting - 1) (advance 2 p)
         else Inr (advance 2 p))
      else if peek p 0 = LF then block_comment state nesting (newline 1 p)
      else block_comment state nesting (advance 1 p))"
  by pat_completeness auto
termination
  by (relation "measure (\<lambda>(state, nesting, p). length (inp p) - ptr p)")
     (auto simp: advance_def newline_def peek_def split: if_splits)

declare block_comment.simps [simp del]

lemma block_comment_progress:
  "block_comment state nesting p = Inr p' \<Longrightarrow> inp p' = inp p \<and> ptr p < ptr p'"
proof (induction state nesting p rule: block_comment.induct)
  case (1 state nesting p)
  show ?case
    using "1.prems" "1.IH"
    by (subst (asm) block_comment.simps)
       (auto simp: advance_def newline_def split: if_splits)
qed


lemma advance_nonempty_decreases:
  "xs \<noteq> [] \<Longrightarrow> a < b \<Longrightarrow> b - (a + length xs) < b - (a :: nat)"
  by (cases xs) auto

text \<open>
  \<open>skip_white\<close>.  The loop returns whether it left through a \<open>return true\<close> inside
  the loop, the indentation counted, the comments collected and the parser.  At the end
  of the text the comparison with the indentation string fails; it could succeed there
  only for an indentation string that starts with NUL, and the code would then step over
  the end of the text.
\<close>

function skip_white_loop ::
  "bool \<Rightarrow> int \<Rightarrow> bool \<Rightarrow> string list \<Rightarrow> Parser
     \<Rightarrow> error + (bool \<times> int \<times> string list \<times> Parser)" where
  "skip_white_loop break_on_newline out_indentation found_newline out_comments p =
     (if peek p 0 = LF then
        (if break_on_newline then Inr (True, 0, out_comments, newline 1 p)
         else skip_white_loop break_on_newline 0 True out_comments (newline 1 p))
      else if peek p 0 = CR then
        (if peek p 1 \<noteq> LF then
           Inl (throw_error p (''CR with no LF. '' @ [BSL] @ ''r only allowed before '' @ [BSL] @ ''n.''))
         else if break_on_newline then Inr (True, 0, out_comments, newline 2 p)
         else skip_white_loop break_on_newline 0 True out_comments (newline 2 p))
      else if indentation (options p) \<noteq> [] \<and> ptr p < length (inp p) \<and>
              strncmp_eq (drop (ptr p) (inp p)) (indentation (options p))
                (length (indentation (options p))) then
        (if enforce_indentation (options p) \<and> indentation (options p) = [TAB] \<and>
            out_indentation = - 1 then
           Inl (throw_error (advance (length (indentation (options p))) p)
                  ''Tabs should only occur on the start of a line!'')
         else skip_white_loop break_on_newline (out_indentation + 1) found_newline out_comments
                (advance (length (indentation (options p))) p))
      else if peek p 0 = TAB then
        (if enforce_indentation (options p) \<and> out_indentation = - 1 then
           Inl (throw_error (advance 1 p) ''Tabs should only occur on the start of a line!'')
         else skip_white_loop break_on_newline (out_indentation + 1) found_newline out_comments
                (advance 1 p))
      else if peek p 0 = CHR '' '' then
        (if found_newline \<and> enforce_indentation (options p) then
           (if indentation (options p) = [TAB] then
              Inl (throw_error p
                ''Found a space at beginning of a line. Indentation must be done using tabs!'')
            else
              Inl (throw_error p (''Indentation should be a multiple of '' @
                     to_string (length (indentation (options p))) @ '' spaces.'')))
         else skip_white_loop break_on_newline (- 1) found_newline out_comments (advance 1 p))
      else if peek p 0 = CHR ''/'' \<and> peek p 1 = CHR ''/'' then
        (if \<not> single_line_comments (options p) then
           Inl (throw_error p ''Single line comments forbidden.'')
         else
           (let n = 2 + length (takeWhile (\<lambda>c. c \<noteq> NUL \<and> c \<noteq> LF) (drop (ptr p + 2) (inp p)));
                cs = out_comments @ [take n (drop (ptr p) (inp p))]
            in if break_on_newline then Inr (True, 0, cs, advance n p)
               else skip_white_loop break_on_newline 0 found_newline cs (advance n p)))
      else if peek p 0 = CHR ''/'' \<and> peek p 1 = CHR ''*'' then
        (if \<not> block_comments (options p) then
           Inl (throw_error p ''Block comments forbidden.'')
         else
           (case block_comment (get_state p) 1 (advance 2 p) of
              Inl e \<Rightarrow> Inl e
            | Inr p1 \<Rightarrow>
                (let cs = out_comments @ [take (ptr p1 - ptr p) (drop (ptr p) (inp p))]
                 in if break_on_newline then Inr (True, - 1, cs, p1)
                    else skip_white_loop break_on_newline (- 1) found_newline cs p1)))
      else Inr (False, out_indentation, out_comments, p))"
  by pat_completeness auto
termination
  apply (relation "measure (\<lambda>(b, i, f, cs, p). length (inp p) - ptr p)")
          apply (auto simp: advance_def newline_def peek_def split: if_splits
                      dest!: block_comment_progress intro: advance_nonempty_decreases)
  done

declare skip_white_loop.simps [simp del]

definition skip_white :: "bool \<Rightarrow> Parser \<Rightarrow> error + (bool \<times> int \<times> string list \<times> Parser)" where
  "skip_white break_on_newline p =
     (case skip_white_loop break_on_newline 0 False [] p of
        Inl e \<Rightarrow> Inl e
      | Inr (returned, out_indentation, out_comments, p') \<Rightarrow>
          if returned then Inr (True, out_indentation, out_comments, p')
          else if ptr p = ptr p' then Inr (False, - 1, out_comments, p')
          else Inr (True, out_indentation, out_comments, p'))"


definition skip_white_ignore_comments :: "Parser \<Rightarrow> error + (bool \<times> Parser)" where
  "skip_white_ignore_comments p =
     (case skip_white False p of
        Inl e \<Rightarrow> Inl e
      | Inr (did_skip, out_indentation, out_comments, p') \<Rightarrow> Inr (did_skip, p'))"

text \<open>\<open>append(config->comments().prefix, ...)\<close> and its postfix twin; \<open>comments()\<close>
  creates the comment store when there is none.\<close>

definition append_prefix :: "string list \<Rightarrow> Config \<Rightarrow> Config" where
  "append_prefix cs c =
     Config (u c) (doc c) (line c)
       (Some ((get_comments c)\<lparr>prefix := prefix (get_comments c) @ cs\<rparr>))"

definition append_postfix :: "string list \<Rightarrow> Config \<Rightarrow> Config" where
  "append_postfix cs c =
     Config (u c) (doc c) (line c)
       (Some ((get_comments c)\<lparr>postfix := postfix (get_comments c) @ cs\<rparr>))"

definition skip_pre_white :: "Config \<Rightarrow> Parser \<Rightarrow> error + (bool \<times> int \<times> Config \<times> Parser)" where
  "skip_pre_white config p =
     (case skip_white False p of
        Inl e \<Rightarrow> Inl e
      | Inr (did_skip, out_indentation, cs, p') \<Rightarrow>
          Inr (did_skip, out_indentation,
               (if cs \<noteq> [] then append_prefix cs config else config), p'))"

definition skip_post_white :: "Config \<Rightarrow> Parser \<Rightarrow> error + (bool \<times> Config \<times> Parser)" where
  "skip_post_white config p =
     (case skip_white True p of
        Inl e \<Rightarrow> Inl e
      | Inr (did_skip, out_indentation, cs, p') \<Rightarrow>
          Inr (did_skip, (if cs \<noteq> [] then append_postfix cs config else config), p'))"

subsection \<open>Strings\<close>

text \<open>\<open>parse_hex\<close>: the loop over the \<open>count\<close> characters at \<open>_ptr\<close>, then
  \<open>_ptr += count\<close>.\<close>

fun parse_hex_loop :: "nat \<Rightarrow> nat \<Rightarrow> 64 word \<Rightarrow> Parser \<Rightarrow> error + 64 word" where
  "parse_hex_loop 0 i ret p = Inr ret"
| "parse_hex_loop (Suc k) i ret p =
     (let c = peek p i in
      if in_range (CHR ''0'') (CHR ''9'') c then
        parse_hex_loop k (i + 1) (ret * 16 + word_of_int (code c - code (CHR ''0''))) p
      else if in_range (CHR ''a'') (CHR ''f'') c then
        parse_hex_loop k (i + 1) (ret * 16 + word_of_int (code c - code (CHR ''a''))) p
      else if in_range (CHR ''A'') (CHR ''F'') c then
        parse_hex_loop k (i + 1) (ret * 16 + word_of_int (code c - code (CHR ''A''))) p
      else Inl (throw_error p (''Expected hexadecimal digit, got '' @ quote (peek p 0))))"

definition parse_hex :: "nat \<Rightarrow> Parser \<Rightarrow> error + (64 word \<times> Parser)" where
  "parse_hex count p =
     (case parse_hex_loop count 0 0 p of
        Inl e \<Rightarrow> Inl e
      | Inr ret \<Rightarrow> Inr (ret, advance count p))"

lemma parse_hex_progress:
  "parse_hex count p = Inr (c, p') \<Longrightarrow> inp p' = inp p \<and> ptr p \<le> ptr p'"
  by (auto simp: parse_hex_def advance_def split: sum.splits)

text \<open>The three loops of \<open>parse_string\<close>: the C# verbatim string, the Python multiline
  string, and the normal string with its escapes.\<close>

function csharp_string :: "State \<Rightarrow> string \<Rightarrow> Parser \<Rightarrow> error + (string \<times> Parser)" where
  "csharp_string state str p =
     (if peek p 0 = NUL then Inl (throw_error (set_state state p) ''Unterminated verbatim string'')
      else if peek p 0 = LF then Inl (throw_error p ''Newline in verbatim string'')
      else if peek p 0 = DQ \<and> peek p 1 = DQ then csharp_string state (str @ [DQ]) (advance 2 p)
      else if peek p 0 = DQ then Inr (str, advance 1 p)
      else csharp_string state (str @ [peek p 0]) (advance 1 p))"
  by pat_completeness auto
termination
  by (relation "measure (\<lambda>(state, str, p). length (inp p) - ptr p)")
     (auto simp: advance_def peek_def split: if_splits)

declare csharp_string.simps [simp del]

function python_string :: "State \<Rightarrow> nat \<Rightarrow> Parser \<Rightarrow> error + (string \<times> Parser)" where
  "python_string state start p =
     (if peek p 0 = NUL \<or> peek p 1 = NUL \<or> peek p 2 = NUL then
        Inl (throw_error (set_state state p) ''Unterminated multiline string'')
      else if peek p 0 = DQ \<and> peek p 1 = DQ \<and> peek p 2 = DQ \<and> peek p 3 \<noteq> DQ then
        Inr (take (ptr p - start) (drop start (inp p)), advance 3 p)
      else if peek p 0 = LF then python_string state start (newline 1 p)
      else python_string state start (advance 1 p))"
  by pat_completeness auto
termination
  by (relation "measure (\<lambda>(state, start, p). length (inp p) - ptr p)")
     (auto simp: advance_def newline_def peek_def split: if_splits)

declare python_string.simps [simp del]

function normal_string :: "State \<Rightarrow> string \<Rightarrow> Parser \<Rightarrow> error + (string \<times> Parser)" where
  "normal_string state str p =
     (if peek p 0 = NUL then Inl (throw_error (set_state state p) ''Unterminated string'')
      else if peek p 0 = DQ then Inr (str, advance 1 p)
      else if peek p 0 = LF then Inl (throw_error p ''Newline in string'')
      else if peek p 0 = TAB \<and> \<not> str_allow_tab (options p) then
        Inl (throw_error p ''Un-escaped tab not allowed in string'')
      else if peek p 0 = BSL then
        (if peek p 1 = DQ then normal_string state (str @ [DQ]) (advance 2 p)
         else if peek p 1 = BSL then normal_string state (str @ [BSL]) (advance 2 p)
         else if peek p 1 = CHR ''/'' then normal_string state (str @ ''/'') (advance 2 p)
         else if peek p 1 = CHR ''b'' then normal_string state (str @ [BSP]) (advance 2 p)
         else if peek p 1 = CHR ''f'' then normal_string state (str @ [FF]) (advance 2 p)
         else if peek p 1 = CHR ''n'' then normal_string state (str @ [LF]) (advance 2 p)
         else if peek p 1 = CHR ''r'' then normal_string state (str @ [CR]) (advance 2 p)
         else if peek p 1 = CHR ''t'' then normal_string state (str @ [TAB]) (advance 2 p)
         else if peek p 1 = CHR ''u'' then
           (case parse_hex 4 (advance 2 p) of
              Inl e \<Rightarrow> Inl e
            | Inr (unicode, p') \<Rightarrow>
                if snd (encode_utf8 unicode) = 0 then Inl (throw_error p' ''Bad unicode codepoint'')
                else normal_string state (str @ fst (encode_utf8 unicode)) p')
         else if peek p 1 = CHR ''U'' then
           (if \<not> str_32bit_unicode (options p) then
              Inl (throw_error (advance 1 p) ([BSL] @ ''U 32 bit unicodes forbidden.''))
            else
              (case parse_hex 8 (advance 2 p) of
                 Inl e \<Rightarrow> Inl e
               | Inr (unicode, p') \<Rightarrow>
                   if snd (encode_utf8 unicode) = 0 then
                     Inl (throw_error p' ''Bad unicode codepoint'')
                   else normal_string state (str @ fst (encode_utf8 unicode)) p'))
         else Inl (throw_error (advance 1 p)
                (''Unknown escape character '' @ quote (peek p 1))))
      else normal_string state (str @ [peek p 0]) (advance 1 p))"
  by pat_completeness auto
termination
  by (relation "measure (\<lambda>(state, str, p). length (inp p) - ptr p)")
     (auto simp: advance_def peek_def split: if_splits dest!: parse_hex_progress)

declare normal_string.simps [simp del]

definition parse_string :: "Parser \<Rightarrow> error + (string \<times> Parser)" where
  "parse_string p =
     (if peek p 0 = CHR ''@'' then
        (if \<not> str_csharp_verbatim (options p) then
           Inl (throw_error p ''C# @-style verbatim strings forbidden.'')
         else
           (case swallow DQ (advance 1 p) of
              Inl e \<Rightarrow> Inl e
            | Inr p' \<Rightarrow> csharp_string (get_state p) [] p'))
      else if peek p 0 \<noteq> DQ then Inl (throw_error p (''Quote ('' @ [DQ] @ '') expected''))
      else if peek p 1 = DQ \<and> peek p 2 = DQ then
        (if \<not> str_python_multiline (options p) then
           Inl (throw_error p
             (''Python '' @ [DQ, DQ, DQ] @ ''-style multiline strings forbidden.''))
         else python_string (get_state p) (ptr p + 3) (advance 3 p))
      else normal_string (get_state p) [] (advance 1 p))"

subsection \<open>Numbers\<close>

text \<open>
  The C library conversions, after ISO C: \<open>isspace\<close> in the C locale, then
  \<open>strtoull\<close> and \<open>strtoll\<close> (white space, an optional sign, for base 16 an optional
  \<open>0x\<close>, the digits; saturation on overflow), each returning the value and the number
  of characters consumed (0 when there is no conversion).
\<close>

definition isspace :: "char \<Rightarrow> bool" where
  "isspace c = (c = CHR '' '' \<or> in_range TAB CR c)"

definition digit_value :: "char \<Rightarrow> int" where
  "digit_value c =
     (if in_range (CHR ''0'') (CHR ''9'') c then code c - code (CHR ''0'')
      else if in_range (CHR ''a'') (CHR ''z'') c then code c - code (CHR ''a'') + 10
      else if in_range (CHR ''A'') (CHR ''Z'') c then code c - code (CHR ''A'') + 10
      else 36)"

definition is_digit :: "int \<Rightarrow> char \<Rightarrow> bool" where
  "is_digit base c = (digit_value c < base)"

definition digits_value :: "int \<Rightarrow> string \<Rightarrow> int" where
  "digits_value base ds = foldl (\<lambda>acc c. acc * base + digit_value c) 0 ds"

text \<open>The subject sequence of an integer conversion: its sign, its magnitude and its
  length including the white space before it; \<open>None\<close> when there are no digits.\<close>

definition integer_subject :: "int \<Rightarrow> string \<Rightarrow> (bool \<times> int \<times> nat) option" where
  "integer_subject base s =
     (let ws = length (takeWhile isspace s);
          s1 = drop ws s;
          sg = (if head0 s1 = CHR ''+'' \<or> head0 s1 = CHR ''-'' then 1 else 0);
          s2 = drop sg s1;
          px = (if base = 16 \<and> head0 s2 = CHR ''0'' \<and>
                   (head0 (drop 1 s2) = CHR ''x'' \<or> head0 (drop 1 s2) = CHR ''X'') \<and>
                   is_digit 16 (head0 (drop 2 s2))
                then 2 else 0);
          ds = takeWhile (is_digit base) (drop px s2)
      in if ds = [] then None
         else Some (head0 s1 = CHR ''-'', digits_value base ds, ws + sg + px + length ds))"

definition strtoull :: "int \<Rightarrow> string \<Rightarrow> 64 word \<times> nat" where
  "strtoull base s =
     (case integer_subject base s of
        None \<Rightarrow> (0, 0)
      | Some (neg, v, n) \<Rightarrow>
          (if 2 ^ 64 \<le> v then 0xFFFFFFFFFFFFFFFF
           else if neg then word_of_int (- v) else word_of_int v, n))"

definition strtoll :: "string \<Rightarrow> 64 word \<times> nat" where
  "strtoll s =
     (case integer_subject 10 s of
        None \<Rightarrow> (0, 0)
      | Some (neg, v, n) \<Rightarrow>
          (if neg then (if 2 ^ 63 < v then 0x8000000000000000 else word_of_int (- v))
           else (if 2 ^ 63 \<le> v then 0x7FFFFFFFFFFFFFFF else word_of_int v), n))"

text \<open>
  \<open>strtod\<close> and \<open>strtof\<close> on a decimal floating-point text: white space, an optional
  sign, digits with an optional point, an optional exponent; the value is rounded to
  nearest.  The other forms the C functions accept (infinity, NaN, hexadecimal) cannot
  reach them from this code, which calls them on a text that starts with a digit or a
  point, or on the text a finite number was printed as; they are no conversion here.
\<close>

definition decimal_subject :: "string \<Rightarrow> (bool \<times> int \<times> int \<times> nat) option" where
  "decimal_subject s =
     (let ws = length (takeWhile isspace s);
          s1 = drop ws s;
          sg = (if head0 s1 = CHR ''+'' \<or> head0 s1 = CHR ''-'' then 1 else 0);
          s2 = drop sg s1;
          d1 = takeWhile (is_digit 10) s2;
          s3 = drop (length d1) s2;
          pt = (if head0 s3 = CHR ''.'' then 1 else 0);
          d2 = (if pt = 1 then takeWhile (is_digit 10) (drop 1 s3) else []);
          s4 = drop (pt + length d2) s3;
          es = (if head0 (drop 1 s4) = CHR ''+'' \<or> head0 (drop 1 s4) = CHR ''-'' then 1 else 0);
          d3 = (if head0 s4 = CHR ''e'' \<or> head0 s4 = CHR ''E''
                then takeWhile (is_digit 10) (drop (1 + es) s4) else []);
          ex = (if head0 (drop 1 s4) = CHR ''-'' then - digits_value 10 d3
                else digits_value 10 d3)
      in if d1 = [] \<and> d2 = [] then None
         else Some (head0 s1 = CHR ''-'', digits_value 10 (d1 @ d2),
                    (if d3 = [] then 0 else ex) - int (length d2),
                    ws + sg + length d1 + pt + length d2 +
                    (if d3 = [] then 0 else 1 + es + length d3)))"

definition decimal_to_fp :: "nat \<Rightarrow> nat \<Rightarrow> bool \<Rightarrow> int \<Rightarrow> int \<Rightarrow> int" where
  "decimal_to_fp p w neg m e =
     (if 0 \<le> e then fp_round p w neg (m * 10 ^ nat e) 1
      else fp_round p w neg m (10 ^ nat (- e)))"

definition strtod :: "string \<Rightarrow> double \<times> nat" where
  "strtod s =
     (case decimal_subject s of
        None \<Rightarrow> (0, 0)
      | Some (neg, m, e, n) \<Rightarrow> (word_of_int (decimal_to_fp 53 11 neg m e), n))"

definition strtof :: "string \<Rightarrow> float \<times> nat" where
  "strtof s =
     (case decimal_subject s of
        None \<Rightarrow> (0, 0)
      | Some (neg, m, e, n) \<Rightarrow> (word_of_int (decimal_to_fp 24 8 neg m e), n))"

text \<open>\<open>Config(long long)\<close> and the products \<open>sign * x\<close> of \<open>parse_finite_number\<close>, where
  \<open>sign\<close> is \<open>+1\<close> or \<open>-1\<close>.  The integer product wraps around.\<close>

definition Config_int64 :: "64 word \<Rightarrow> Config" where
  "Config_int64 i = Config (U_i i) None BAD_ENTRY None"

definition int_times :: "int \<Rightarrow> 64 word \<Rightarrow> 64 word" where
  "int_times sign x = word_of_int sign * x"

definition double_times :: "int \<Rightarrow> double \<Rightarrow> double" where
  "double_times sign x = (if sign < 0 then double_neg x else x)"

text \<open>\<open>parse_finite_number\<close>, in three steps: the signs, the prefixed integers, and the
  decimal integer or float.\<close>

definition number_sign :: "Parser \<Rightarrow> error + (int \<times> Parser)" where
  "number_sign p =
     (case (if peek p 0 = CHR ''+'' then
              (if \<not> unary_plus (options p) then
                 Inl (throw_error p ''Prefixing numbers with + is forbidden.'')
               else
                 (case skip_white_ignore_comments (advance 1 p) of
                    Inl e \<Rightarrow> Inl e
                  | Inr (_, p') \<Rightarrow> Inr p'))
            else Inr p) of
        Inl e \<Rightarrow> Inl e
      | Inr p1 \<Rightarrow>
          (case (if peek p1 0 = CHR ''-'' then
                   (case skip_white_ignore_comments (advance 1 p1) of
                      Inl e \<Rightarrow> Inl e
                    | Inr (_, p') \<Rightarrow> Inr (- 1, p'))
                 else Inr (1, p1)) of
             Inl e \<Rightarrow> Inl e
           | Inr (sign, p2) \<Rightarrow>
               if peek p2 0 = CHR ''+'' \<or> peek p2 0 = CHR ''-'' then
                 Inl (throw_error p2 ''Duplicate sign'')
               else Inr (sign, p2)))"

definition parse_finite_number :: "Config \<Rightarrow> Parser \<Rightarrow> error + (Config \<times> Parser)" where
  "parse_finite_number dst p0 =
     (case number_sign p0 of
        Inl e \<Rightarrow> Inl e
      | Inr (sign, p) \<Rightarrow>
          if peek p 0 = CHR ''0'' \<and> peek p 1 = CHR ''x'' then
            (if \<not> hexadecimal_integers (options p) then
               Inl (throw_error p ''Hexadecimal numbers forbidden.'')
             else
               (let r = strtoull 16 (drop (ptr p + 2) (inp p)); p' = advance (2 + snd r) p in
                if snd r = 0 then Inl (throw_error p' ''Missing hexaxdecimal digits after 0x'')
                else Inr (assign_move dst (Config_int64 (int_times sign (fst r))), p')))
          else if peek p 0 = CHR ''0'' \<and> peek p 1 = CHR ''b'' then
            (if \<not> binary_integers (options p) then
               Inl (throw_error p ''Binary numbers forbidden.'')
             else
               (let r = strtoull 2 (drop (ptr p + 2) (inp p)); p' = advance (2 + snd r) p in
                if snd r = 0 then Inl (throw_error p' ''Missing binary digits after 0b'')
                else Inr (assign_move dst (Config_int64 (int_times sign (fst r))), p')))
          else
            (let c = head0 (dropWhile (in_range (CHR ''0'') (CHR ''9'')) (drop (ptr p) (inp p))) in
             if c = CHR ''.'' \<or> c = CHR ''e'' \<or> c = CHR ''E'' then
               (let r = strtod (drop (ptr p) (inp p)); p' = advance (snd r) p in
                if snd r = 0 then Inl (throw_error p' ''Invalid float'')
                else Inr (assign_move dst (Config_double (double_times sign (fst r))), p'))
             else
               (let r = strtoll (drop (ptr p) (inp p)); p' = advance (snd r) p in
                if snd r = 0 then Inl (throw_error p' ''Invalid integer'')
                else if peek p 0 = CHR ''0'' \<and> fst r \<noteq> 0 then
                  Inl (throw_error p' ''Integer may not start with a zero'')
                else Inr (assign_move dst (Config_int64 (int_times sign (fst r))), p'))))"

subsection \<open>Values\<close>

text \<open>
  The branches of \<open>parse_value\<close> that do not recurse: strings, \<open>null\<close>, \<open>true\<close>,
  \<open>false\<close>, numbers, and the final \<open>Expected value\<close>.
\<close>

definition parse_keyword ::
  "string \<Rightarrow> Config \<Rightarrow> Config \<Rightarrow> Parser \<Rightarrow> error + (Config \<times> Parser)" where
  "parse_keyword kw v dst p =
     (let msg = ''Expected '' @ [SQ] @ kw @ [SQ] in
      if \<not> list_all (\<lambda>i. peek p i = kw ! i) [1..<length kw] then Inl (throw_error p msg)
      else if IDENT_CHARS (peek p (length kw)) then Inl (throw_error p msg)
      else Inr (assign_move dst v, advance (length kw) p))"

definition parse_special ::
  "string \<Rightarrow> bool \<Rightarrow> string \<Rightarrow> double \<Rightarrow> Config \<Rightarrow> Parser \<Rightarrow> error + (Config \<times> Parser)" where
  "parse_special name allowed forbidden v dst p =
     (if IDENT_CHARS (peek p 4) then Inl (throw_error p (''Expected '' @ name))
      else if \<not> allowed then Inl (throw_error p forbidden)
      else Inr (assign_move dst (Config_double v), advance 4 p))"

definition parse_scalar :: "Config \<Rightarrow> Parser \<Rightarrow> error + (Config \<times> Parser)" where
  "parse_scalar dst p =
     (if peek p 0 = DQ \<or> peek p 0 = CHR ''@'' then
        (case parse_string p of
           Inl e \<Rightarrow> Inl e
         | Inr (s, p') \<Rightarrow> Inr (assign_move dst (Config_string s), p'))
      else if peek p 0 = CHR ''n'' then parse_keyword ''null'' Config_null dst p
      else if peek p 0 = CHR ''t'' then parse_keyword ''true'' (Config_bool True) dst p
      else if peek p 0 = CHR ''f'' then parse_keyword ''false'' (Config_bool False) dst p
      else if peek p 0 = CHR ''+'' \<or> peek p 0 = CHR ''-'' \<or> peek p 0 = CHR ''.'' \<or>
              in_range (CHR ''0'') (CHR ''9'') (peek p 0) then
        (if peek p 0 = CHR ''-'' \<and> peek p 1 = CHR ''i'' \<and> peek p 2 = CHR ''n'' \<and>
            peek p 3 = CHR ''f'' then
           parse_special ''-inf'' (inf_opt (options p)) ''infinity forbidden.''
             (double_neg double_infinity) dst p
         else if peek p 0 = CHR ''+'' \<and> peek p 1 = CHR ''i'' \<and> peek p 2 = CHR ''n'' \<and>
                 peek p 3 = CHR ''f'' then
           parse_special ''+inf'' (inf_opt (options p)) ''infinity forbidden.''
             double_infinity dst p
         else if peek p 0 = CHR ''+'' \<and> peek p 1 = CHR ''N'' \<and> peek p 2 = CHR ''a'' \<and>
                 peek p 3 = CHR ''N'' then
           parse_special ''+NaN'' (nan_opt (options p)) ''NaN (Not a Number) forbidden.''
             double_quiet_NaN dst p
         else parse_finite_number dst p)
      else Inl (throw_error p ''Expected value''))"

subsection \<open>The steps of the array and object loops\<close>

text \<open>
  A result of the recursive functions: \<open>None\<close> when the recursion budget is used up
  (the code would still be running), otherwise the exception thrown or the value
  returned.
\<close>

type_synonym 'a result = "(error + 'a) option"

text \<open>The indentation check made at several places: the error thrown, if any.\<close>

definition check_indentation :: "Parser \<Rightarrow> int \<Rightarrow> int \<Rightarrow> error option" where
  "check_indentation p expected line_indentation =
     (if 0 \<le> line_indentation \<and> expected \<noteq> line_indentation then
        throw_indentation_error p expected line_indentation
      else None)"

text \<open>The start of an iteration: the fresh \<open>value\<close> with the comments left over from
  the previous iteration as its prefix, and \<open>skip_pre_white\<close> on it.\<close>

definition fresh_value :: "string list \<Rightarrow> Config" where
  "fresh_value next_prefix_comments =
     (if next_prefix_comments \<noteq> [] then
        Config U_none None BAD_ENTRY (Some (empty_comments\<lparr>prefix := next_prefix_comments\<rparr>))
      else Config_uninit)"

text \<open>\<open>container.comments().pre_end_brace = value.comments().prefix\<close>, made when the
  value has comments.\<close>

definition take_pre_end_brace :: "Config \<Rightarrow> Config \<Rightarrow> Config" where
  "take_pre_end_brace v container =
     (if has_comments v then
        Config (u container) (doc container) (line container)
          (Some ((get_comments container)\<lparr>pre_end_brace := prefix (get_comments v)\<rparr>))
      else container)"

text \<open>
  After \<open>parse_value\<close>: the comments up to the next token become the prefix of the next
  value, and a comma is swallowed together with the white space behind it.  The result
  is the value, \<open>has_separator\<close>, \<open>has_comma\<close>, \<open>comma_state\<close>, the comments and the
  parser.
\<close>

definition after_value ::
  "Config \<Rightarrow> bool \<Rightarrow> Parser
     \<Rightarrow> error + (Config \<times> bool \<times> bool \<times> State \<times> string list \<times> Parser)" where
  "after_value v has_separator p =
     (case skip_white False p of
        Inl e \<Rightarrow> Inl e
      | Inr (_, _, next_prefix_comments, p1) \<Rightarrow>
          if peek p1 0 = CHR '','' then
            (case skip_post_white v (advance 1 p1) of
               Inl e \<Rightarrow> Inl e
             | Inr (_, v', p2) \<Rightarrow> Inr (v', True, True, get_state p1, next_prefix_comments, p2))
          else Inr (v, has_separator, False, get_state p1, next_prefix_comments, p1))"

text \<open>The check at the end of an iteration; \<open>close\<close> is \<open>]\<close> or \<open>}\<close>.\<close>

definition check_separator ::
  "char \<Rightarrow> bool \<Rightarrow> bool \<Rightarrow> bool \<Rightarrow> bool \<Rightarrow> State \<Rightarrow> Parser \<Rightarrow> error option" where
  "check_separator close trailing_comma omit_comma has_separator has_comma comma_state p =
     (if peek p 0 = NUL \<or> peek p 0 = close then
        (if has_comma \<and> \<not> trailing_comma then
           Some (throw_error (set_state comma_state p) ''Trailing comma forbidden.'')
         else None)
      else if omit_comma then
        (if \<not> has_separator then
           Some (throw_error p (''Expected a space, newline, comma or '' @ [close]))
         else None)
      else
        (if \<not> has_comma then Some (throw_error p (''Expected a comma or '' @ [close]))
         else None))"

text \<open>The key of an object entry, from \<open>pre_key_state\<close> to the white space after the
  separator.\<close>

definition object_key :: "Config \<Rightarrow> Parser \<Rightarrow> error + (string \<times> Parser)" where
  "object_key object p =
     (case (if IDENT_STARTERS (peek p 0) = None then Inl out_of_bounds
            else if IDENT_STARTERS (peek p 0) = Some True \<and> \<not> is_reserved_identifier p then
              (if \<not> identifiers_keys (options p) then
                 Inl (throw_error p ''You need to surround keys with quotes'')
               else
                 (let key = takeWhile IDENT_CHARS (drop (ptr p) (inp p))
                  in Inr (key, advance (length key) p)))
            else if peek p 0 = DQ \<or> peek p 0 = CHR ''@'' then parse_string p
            else
              Inl (throw_error p
                (''Object key expected (either an identifier or a quoted string), got '' @
                 quote (peek p 0)))) of
        Inl e \<Rightarrow> Inl e
      | Inr (key, p1) \<Rightarrow>
          (case (if object_duplicate_keys (options p) then Inr False else has_key key object) of
             Inl e \<Rightarrow> Inl e
           | Inr duplicate \<Rightarrow>
               if duplicate then
                 Inl (throw_error (set_state (get_state p) p1)
                   (''Duplicate key: '' @ [DQ] @ key @ [DQ] @ ''. Already set at '' @
                    where_cfg (refresh_docs (docs p) (entry_ref key object))))
               else
                 (case skip_white_ignore_comments p1 of
                    Inl e \<Rightarrow> Inl e
                  | Inr (space_after_key, p2) \<Rightarrow>
                      if peek p2 0 = CHR '':'' \<or>
                         (object_separator_equal (options p) \<and> peek p2 0 = CHR ''='') then
                        (if peek p2 0 = CHR '':'' \<and> space_after_key \<and>
                            \<not> allow_space_before_colon (options p) then
                           Inl (throw_error p2 ''No space allowed before colon'')
                         else
                           (case skip_white_ignore_comments (advance 1 p2) of
                              Inl e \<Rightarrow> Inl e
                            | Inr (_, p3) \<Rightarrow> Inr (key, p3)))
                      else if omit_colon_before_object (options p) \<and>
                              (peek p2 0 = CHR ''{'' \<or> peek p2 0 = CHR ''#'') then
                        Inr (key, p2)
                      else if object_separator_equal (options p) \<and>
                              omit_colon_before_object (options p) then
                        Inl (throw_error p2
                          (''Expected one of '' @ [SQ] @ ''='' @ [SQ] @ '', '' @ [SQ] @ '':'' @ [SQ] @
                           '', '' @ [SQ] @ ''{'' @ [SQ] @ '' or '' @ [SQ] @ ''#'' @ [SQ] @
                           '' after object key''))
                      else Inl (throw_error p2 ''Expected : after object key''))))"

text \<open>The path of an \<open>#include\<close>, resolved against the including file.\<close>

definition find_last_of :: "char \<Rightarrow> string \<Rightarrow> nat option" where
  "find_last_of c s =
     (if c \<in> set s then Some (length s - 1 - length (takeWhile (\<lambda>x. x \<noteq> c) (rev s))) else None)"

definition macro_path :: "Parser \<Rightarrow> error + (string \<times> Parser)" where
  "macro_path p0 =
     (if \<not> allow_macro (options p0) then Inl (throw_error p0 ''#macros forbidden.'')
      else if \<not> fst (try_swallow ''#include'' p0) then
        Inl (throw_error p0 (''Expected '' @ [SQ] @ ''#include'' @ [SQ]))
      else
        (case skip_white_ignore_comments (snd (try_swallow ''#include'' p0)) of
           Inl e \<Rightarrow> Inl e
         | Inr (_, p) \<Rightarrow>
             if peek p 0 \<noteq> DQ \<and> peek p 0 \<noteq> CHR ''<'' then
               Inl (throw_error p (''Expected '' @ [DQ] @ '' or <''))
             else
               (let absolute = (peek p 0 = CHR ''<'');
                    terminator = (if absolute then CHR ''>'' else DQ);
                    path = takeWhile (\<lambda>c. c \<noteq> NUL \<and> c \<noteq> terminator \<and> c \<noteq> LF)
                             (drop (ptr p + 1) (inp p));
                    p1 = advance (1 + length path) p
                in if peek p1 0 = NUL then Inl (throw_error p ''Unterminated include path'')
                   else if peek p1 0 = LF then Inl (throw_error p1 ''Newline in string'')
                   else
                     Inr (if absolute then path
                          else (case find_last_of (CHR ''/'') (filename (p_doc p)) of
                                  None \<Rightarrow> path
                                | Some pos \<Rightarrow> take (pos + 1) (filename (p_doc p)) @ path),
                          advance 1 p1))))"

subsection \<open>The recursive descent\<close>

text \<open>\<open>_info.parsed_files[path] = dst\<close> on the \<open>std::unordered_map\<close>.\<close>

fun files_assign :: "string \<Rightarrow> Config \<Rightarrow> (string \<times> Config) list \<Rightarrow> (string \<times> Config) list" where
  "files_assign path c [] = [(path, assign_copy Config_uninit c)]"
| "files_assign path c ((k, old) # m) =
     (if k = path then (k, assign_copy old c) # m else (k, old) # files_assign path c m)"

text \<open>
  \<open>child_doc->includers.emplace_back(_doc, _line_nr)\<close>, on the document as the table
  \<open>docs\<close> has it, and the table with the new entry.  The values tagged with the document
  before are brought up to date where their documents are read: in the message of a
  duplicate key, and when the parser returns its value.
\<close>

definition add_includer :: "DocInfo \<times> 32 word \<Rightarrow> DocInfo \<Rightarrow> DocInfo" where
  "add_includer inc d = DocInfo (doc_id d) (includers d @ [inc]) (filename d)"

definition current_doc :: "(nat \<times> DocInfo) list \<Rightarrow> DocInfo \<Rightarrow> DocInfo" where
  "current_doc ds d = (case map_of ds (doc_id d) of Some d' \<Rightarrow> d' | None \<Rightarrow> d)"

fun docs_store :: "DocInfo \<Rightarrow> (nat \<times> DocInfo) list \<Rightarrow> (nat \<times> DocInfo) list" where
  "docs_store d [] = [(doc_id d, d)]"
| "docs_store d ((i, d') # ds) =
     (if i = doc_id d then (i, d) # ds else (i, d') # docs_store d ds)"

text \<open>
  The constructor of \<open>Parser\<close> for a text and a document, with its assertion; the
  options, the files, the \<open>ParseInfo\<close> and the allocator are those of \<open>p\<close>.  The text is
  a C string: it ends at its first NUL.
\<close>

definition c_str :: "string \<Rightarrow> string" where
  "c_str s = takeWhile (\<lambda>c. c \<noteq> NUL) s"

definition Parser_new :: "string \<Rightarrow> DocInfo \<Rightarrow> Parser \<Rightarrow> error + Parser" where
  "Parser_new str d p =
     (if indentation (options p) = [] \<and> enforce_indentation (options p) then
        Inl (Crash ''CONFIGURU_ASSERT: indentation is empty and enforce_indentation is set'')
      else
        Inr (p\<lparr>p_doc := d, inp := c_str str, ptr := 0, line_nr := 1, line_start := 0,
               p_indentation := 0\<rparr>))"

text \<open>\<open>top_level\<close> before the contents are parsed: the look-ahead that decides whether
  the document is the inside of an object.  The state is restored after it.\<close>

definition top_level_is_object :: "Parser \<Rightarrow> error + bool" where
  "top_level_is_object p =
     (if implicit_top_object (options p) then
        (case skip_white_ignore_comments p of
           Inl e \<Rightarrow> Inl e
         | Inr (_, p1) \<Rightarrow>
             if IDENT_STARTERS (peek p1 0) = None then Inl out_of_bounds
             else if IDENT_STARTERS (peek p1 0) = Some True \<and> \<not> is_reserved_identifier p1 then
               Inr True
             else if peek p1 0 = DQ \<or> peek p1 0 = CHR ''@'' then
               (case parse_string p1 of
                  Inl e \<Rightarrow> Inl e
                | Inr (_, p2) \<Rightarrow>
                    (case skip_white_ignore_comments p2 of
                       Inl e \<Rightarrow> Inl e
                     | Inr (_, p3) \<Rightarrow> Inr (peek p3 0 = CHR '':'' \<or> peek p3 0 = CHR ''='')))
             else Inr False)
      else Inr False)"

text \<open>\<open>ConfigComments::append\<close>.\<close>

definition comments_append :: "ConfigComments \<Rightarrow> ConfigComments \<Rightarrow> ConfigComments" where
  "comments_append this other =
     \<lparr>prefix = prefix this @ prefix other, postfix = postfix this @ postfix other,
      pre_end_brace = pre_end_brace this @ pre_end_brace other\<rparr>"

text \<open>
  \<open>top_level\<close> after the contents are parsed.  When the document is not an object,
  \<open>ret\<close> is the array that \<open>parse_array_contents\<close> made, and \<open>ret.array_size()\<close> is the
  length of its elements.
\<close>

definition top_level_finish :: "bool \<Rightarrow> Config \<Rightarrow> Parser \<Rightarrow> error + (Config \<times> Parser)" where
  "top_level_finish is_obj ret0 p0 =
     (if \<not> is_obj \<and> \<not> (length (array_impl (u ret0)) \<le> 1 \<or> implicit_top_array (options p0)) then
        Inl (throw_error p0 ''Multiple values not allowed without enclosing []'')
      else
        (case skip_post_white ret0 p0 of
           Inl e \<Rightarrow> Inl e
         | Inr (_, ret, p) \<Rightarrow>
             if peek p 0 \<noteq> NUL then Inl (throw_error p ''Expected EoF'')
             else if \<not> is_obj \<and> length (array_impl (u ret)) = 0 then
               (if empty_file (options p) then
                  Inr (Config (U_object (next_addr p) []) None BAD_ENTRY (comments ret),
                       p\<lparr>next_addr := next_addr p + 1\<rparr>)
                else Inl (throw_error p ''Empty file''))
             else if \<not> is_obj \<and> length (array_impl (u ret)) = 1 then
               (let first = hd (array_impl (u ret)) in
                Inr (if has_comments ret then
                       Config (u first) (doc first) (line first)
                         (Some (comments_append (get_comments first) (get_comments ret)))
                     else first,
                     p))
             else Inr (ret, p)))"

text \<open>
  The mutually recursive functions of the parser.  Every cycle of calls goes through
  \<open>parse_value\<close> or is one of the two \<open>for (;;)\<close> loops, so each function takes the
  \<open>parse_value\<close> it calls as its argument \<open>pv\<close>, and \<open>parse_value\<close> closes the cycle at
  the end.  The number \<open>n\<close> bounds the iterations of a loop and the depth of the nested
  values; with the bound used up the result is \<open>None\<close>.  A file that includes itself
  makes the code recurse without end: the result is \<open>None\<close> for every bound.
  \<open>array_loop\<close> and \<open>object_loop\<close> are the loops of \<open>parse_array_contents\<close> and
  \<open>parse_object_contents\<close>; \<open>parse_file_doc\<close> is \<open>parse_file\<close> with a document and a
  \<open>ParseInfo\<close>, followed by the \<open>parse_string\<close> it calls.
\<close>

type_synonym value_parser = "Config \<Rightarrow> Parser \<Rightarrow> (Config \<times> bool \<times> Parser) result"

primrec array_loop :: "value_parser \<Rightarrow> nat \<Rightarrow> Config \<Rightarrow> string list \<Rightarrow> Parser \<Rightarrow> (Config \<times> Parser) result" where
  "array_loop pv 0 array next_prefix_comments p = None"
| "array_loop pv (Suc n) array next_prefix_comments p =
     (case skip_pre_white (fresh_value next_prefix_comments) p of
        Inl e \<Rightarrow> Some (Inl e)
      | Inr (_, line_indentation, v, p1) \<Rightarrow>
          if peek p1 0 = CHR '']'' then
            (case check_indentation p1 (p_indentation p1 - 1) line_indentation of
               Some e \<Rightarrow> Some (Inl e)
             | None \<Rightarrow> Some (Inr (take_pre_end_brace v array, p1)))
          else if peek p1 0 = NUL then Some (Inr (take_pre_end_brace v array, p1))
          else
            (case check_indentation p1 (p_indentation p1) line_indentation of
               Some e \<Rightarrow> Some (Inl e)
             | None \<Rightarrow>
                 if IDENT_STARTERS (peek p1 0) = None then Some (Inl out_of_bounds)
                 else if IDENT_STARTERS (peek p1 0) = Some True \<and>
                         \<not> is_reserved_identifier p1 then
                   Some (Inl (throw_error p1
                     (''Found identifier; expected value. '' @
                      ''Did you mean to use a {object} rather than a [array]?'')))
                 else
                   (case pv v p1 of
                      None \<Rightarrow> None
                    | Some (Inl e) \<Rightarrow> Some (Inl e)
                    | Some (Inr (v1, has_separator, p2)) \<Rightarrow>
                        (case after_value v1 has_separator p2 of
                           Inl e \<Rightarrow> Some (Inl e)
                         | Inr (v2, has_separator', has_comma, comma_state, next', p3) \<Rightarrow>
                             (case push_back v2 array of
                                Inl e \<Rightarrow> Some (Inl e)
                              | Inr array' \<Rightarrow>
                                  (case check_separator (CHR '']'')
                                          (array_trailing_comma (options p3))
                                          (array_omit_comma (options p3))
                                          has_separator' has_comma comma_state p3 of
                                     Some e \<Rightarrow> Some (Inl e)
                                   | None \<Rightarrow> array_loop pv n array' next' p3))))))"

definition parse_array_contents :: "value_parser \<Rightarrow> nat \<Rightarrow> Config \<Rightarrow> Parser \<Rightarrow> (Config \<times> Parser) result" where
  "parse_array_contents pv n array p =
     (case make_array (next_addr p) array of
        Inl e \<Rightarrow> Some (Inl e)
      | Inr array' \<Rightarrow> array_loop pv n array' [] (p\<lparr>next_addr := next_addr p + 1\<rparr>))"

definition parse_array :: "value_parser \<Rightarrow> nat \<Rightarrow> Config \<Rightarrow> Parser \<Rightarrow> (Config \<times> Parser) result" where
  "parse_array pv n array p =
     (case swallow (CHR ''['') p of
        Inl e \<Rightarrow> Some (Inl e)
      | Inr p1 \<Rightarrow>
          (case parse_array_contents pv n array (p1\<lparr>p_indentation := p_indentation p1 + 1\<rparr>) of
             None \<Rightarrow> None
           | Some (Inl e) \<Rightarrow> Some (Inl e)
           | Some (Inr (array', p2)) \<Rightarrow>
               if peek p2 0 = CHR '']'' then
                 Some (Inr (array', advance 1 (p2\<lparr>p_indentation := p_indentation p2 - 1\<rparr>)))
               else
                 Some (Inl (throw_error
                   (set_state (get_state p) (p2\<lparr>p_indentation := p_indentation p2 - 1\<rparr>))
                   ''Non-terminated array''))))"

primrec object_loop :: "value_parser \<Rightarrow> nat \<Rightarrow> Config \<Rightarrow> string list \<Rightarrow> Parser \<Rightarrow> (Config \<times> Parser) result" where
  "object_loop pv 0 object next_prefix_comments p = None"
| "object_loop pv (Suc n) object next_prefix_comments p =
     (case skip_pre_white (fresh_value next_prefix_comments) p of
        Inl e \<Rightarrow> Some (Inl e)
      | Inr (_, line_indentation, v, p1) \<Rightarrow>
          if peek p1 0 = CHR ''}'' then
            (case check_indentation p1 (p_indentation p1 - 1) line_indentation of
               Some e \<Rightarrow> Some (Inl e)
             | None \<Rightarrow> Some (Inr (take_pre_end_brace v object, p1)))
          else if peek p1 0 = NUL then Some (Inr (take_pre_end_brace v object, p1))
          else
            (case check_indentation p1 (p_indentation p1) line_indentation of
               Some e \<Rightarrow> Some (Inl e)
             | None \<Rightarrow>
                 (case object_key object p1 of
                    Inl e \<Rightarrow> Some (Inl e)
                  | Inr (key, pk) \<Rightarrow>
                      (case pv v pk of
                         None \<Rightarrow> None
                       | Some (Inl e) \<Rightarrow> Some (Inl e)
                       | Some (Inr (v1, has_separator, p2)) \<Rightarrow>
                           (case after_value v1 has_separator p2 of
                              Inl e \<Rightarrow> Some (Inl e)
                            | Inr (v2, has_separator', has_comma, comma_state, next', p3) \<Rightarrow>
                                (case subscript_assign key v2 object of
                                   Inl e \<Rightarrow> Some (Inl e)
                                 | Inr object' \<Rightarrow>
                                     (case check_separator (CHR ''}'')
                                             (object_trailing_comma (options p3))
                                             (object_omit_comma (options p3))
                                             has_separator' has_comma comma_state p3 of
                                        Some e \<Rightarrow> Some (Inl e)
                                      | None \<Rightarrow> object_loop pv n object' next' p3)))))))"

definition parse_object_contents :: "value_parser \<Rightarrow> nat \<Rightarrow> Config \<Rightarrow> Parser \<Rightarrow> (Config \<times> Parser) result" where
  "parse_object_contents pv n object p =
     (case make_object (next_addr p) object of
        Inl e \<Rightarrow> Some (Inl e)
      | Inr object' \<Rightarrow> object_loop pv n object' [] (p\<lparr>next_addr := next_addr p + 1\<rparr>))"

definition parse_object :: "value_parser \<Rightarrow> nat \<Rightarrow> Config \<Rightarrow> Parser \<Rightarrow> (Config \<times> Parser) result" where
  "parse_object pv n object p =
     (case swallow (CHR ''{'') p of
        Inl e \<Rightarrow> Some (Inl e)
      | Inr p1 \<Rightarrow>
          (case parse_object_contents pv n object (p1\<lparr>p_indentation := p_indentation p1 + 1\<rparr>) of
             None \<Rightarrow> None
           | Some (Inl e) \<Rightarrow> Some (Inl e)
           | Some (Inr (object', p2)) \<Rightarrow>
               if peek p2 0 = CHR ''}'' then
                 Some (Inr (object', advance 1 (p2\<lparr>p_indentation := p_indentation p2 - 1\<rparr>)))
               else
                 Some (Inl (throw_error
                   (set_state (get_state p) (p2\<lparr>p_indentation := p_indentation p2 - 1\<rparr>))
                   ''Non-terminated object''))))"

definition top_level :: "value_parser \<Rightarrow> nat \<Rightarrow> Parser \<Rightarrow> (Config \<times> Parser) result" where
  "top_level pv n p =
     (case top_level_is_object p of
        Inl e \<Rightarrow> Some (Inl e)
      | Inr is_obj \<Rightarrow>
          (case (if is_obj then parse_object_contents pv n (tag p Config_uninit) p
                 else parse_array_contents pv n (tag p Config_uninit) p) of
             None \<Rightarrow> None
           | Some (Inl e) \<Rightarrow> Some (Inl e)
           | Some (Inr (ret, p1)) \<Rightarrow> Some (top_level_finish is_obj ret p1)))"

definition parse_file_doc :: "value_parser \<Rightarrow> nat \<Rightarrow> string \<Rightarrow> DocInfo \<Rightarrow> Parser \<Rightarrow> (Config \<times> Parser) result" where
  "parse_file_doc pv n path d p =
     (case fs p (c_str path) of
        Inl strerror \<Rightarrow>
          Some (Inl (RuntimeError (''Failed to open '' @ [SQ] @ c_str path @ [SQ] @
                                   '' for reading: '' @ strerror)))
      | Inr file \<Rightarrow>
          (case Parser_new file d p of
             Inl e \<Rightarrow> Some (Inl e)
           | Inr q \<Rightarrow>
               (case top_level pv n q of
                  None \<Rightarrow> None
                | Some (Inl e) \<Rightarrow> Some (Inl e)
                | Some (Inr (c, q')) \<Rightarrow>
                    Some (Inr (c, p\<lparr>parsed_files := parsed_files q', docs := docs q',
                                     next_addr := next_addr q'\<rparr>)))))"

definition parse_macro :: "value_parser \<Rightarrow> nat \<Rightarrow> Config \<Rightarrow> Parser \<Rightarrow> (Config \<times> Parser) result" where
  "parse_macro pv n dst p =
     (case macro_path p of
        Inl e \<Rightarrow> Some (Inl e)
      | Inr (path, p1) \<Rightarrow>
          (case map_of (parsed_files p1) path of
             None \<Rightarrow>
               (case parse_file_doc pv n path
                       (DocInfo (next_addr p1) [(p_doc p1, line_nr p1)] path)
                       (p1\<lparr>docs := docs p1 @
                                   [(next_addr p1,
                                     DocInfo (next_addr p1) [(p_doc p1, line_nr p1)] path)],
                           next_addr := next_addr p1 + 1\<rparr>) of
                  None \<Rightarrow> None
                | Some (Inl e) \<Rightarrow> Some (Inl e)
                | Some (Inr (c, p2)) \<Rightarrow>
                    Some (Inr (copy_source (assign_move dst c),
                               p2\<lparr>parsed_files :=
                                    files_assign path (assign_move dst c) (parsed_files p2)\<rparr>)))
           | Some cached \<Rightarrow>
               (case doc cached of
                  None \<Rightarrow> Some (Inl (Crash ''child_doc is null''))
                | Some child_doc \<Rightarrow>
                    (let new_doc = add_includer (p_doc p1, line_nr p1)
                                     (current_doc (docs p1) child_doc)
                     in Some (Inr (assign_copy dst
                                     (Config (u cached) (Some new_doc) (line cached)
                                        (comments cached)),
                                   p1\<lparr>parsed_files :=
                                        map (\<lambda>(k, c). if k = path then
                                               (k, copy_source (Config (u c) (Some new_doc)
                                                                  (line c) (comments c)))
                                             else (k, c)) (parsed_files p1),
                                      docs := docs_store new_doc (docs p1)\<rparr>))))))"

primrec parse_value :: "nat \<Rightarrow> value_parser" where
  "parse_value 0 dst p = None"
| "parse_value (Suc n) dst p =
     (case skip_pre_white dst p of
        Inl e \<Rightarrow> Some (Inl e)
      | Inr (_, line_indentation, dst1, p1) \<Rightarrow>
          (case check_indentation p1 (p_indentation p1 - 1) line_indentation of
             Some e \<Rightarrow> Some (Inl e)
           | None \<Rightarrow>
               (case (if peek p1 0 = CHR ''{'' then parse_object (parse_value n) n (tag p1 dst1) p1
                      else if peek p1 0 = CHR ''['' then parse_array (parse_value n) n (tag p1 dst1) p1
                      else if peek p1 0 = CHR ''#'' then parse_macro (parse_value n) n (tag p1 dst1) p1
                      else Some (parse_scalar (tag p1 dst1) p1)) of
                  None \<Rightarrow> None
                | Some (Inl e) \<Rightarrow> Some (Inl e)
                | Some (Inr (dst2, p2)) \<Rightarrow>
                    (case skip_post_white dst2 p2 of
                       Inl e \<Rightarrow> Some (Inl e)
                     | Inr (did_skip, dst3, p3) \<Rightarrow> Some (Inr (dst3, did_skip, p3))))))"

subsection \<open>The entry points\<close>

text \<open>
  \<open>parse_string(str, options, name)\<close> and \<open>parse_file(path, options)\<close> of the
  namespace \<open>configuru\<close> (the first is named apart from the member function
  \<open>Parser::parse_string\<close> above).  \<open>files\<close> is the file system: the contents of a file,
  or the reason why it cannot be opened.  The value returned has its documents as they
  are when the parser returns.
\<close>

definition Parser_init :: "FormatOptions \<Rightarrow> (string \<Rightarrow> string + string) \<Rightarrow> Parser" where
  "Parser_init opts files =
     \<lparr>options = opts, p_doc = DocInfo 0 [] [], fs = files, inp = [], ptr = 0, line_nr = 1,
      line_start = 0, p_indentation = 0, parsed_files = [], docs = [], next_addr = 1\<rparr>"

definition parse_string_named ::
  "nat \<Rightarrow> (string \<Rightarrow> string + string) \<Rightarrow> string \<Rightarrow> FormatOptions \<Rightarrow> string \<Rightarrow> Config result" where
  "parse_string_named n files str opts name =
     (case Parser_new str (DocInfo 0 [] (c_str name)) (Parser_init opts files) of
        Inl e \<Rightarrow> Some (Inl e)
      | Inr p \<Rightarrow>
          (case top_level (parse_value n) n p of
             None \<Rightarrow> None
           | Some (Inl e) \<Rightarrow> Some (Inl e)
           | Some (Inr (c, p')) \<Rightarrow> Some (Inr (refresh_docs (docs p') c))))"

definition parse_file ::
  "nat \<Rightarrow> (string \<Rightarrow> string + string) \<Rightarrow> string \<Rightarrow> FormatOptions \<Rightarrow> Config result" where
  "parse_file n files path opts =
     (case parse_file_doc (parse_value n) n path (DocInfo 0 [] path) (Parser_init opts files) of
        None \<Rightarrow> None
      | Some (Inl e) \<Rightarrow> Some (Inl e)
      | Some (Inr (c, p')) \<Rightarrow> Some (Inr (refresh_docs (docs p') c)))"

text \<open>A file system without files.\<close>

definition no_files :: "string \<Rightarrow> string + string" where
  "no_files path = Inl ''No such file or directory''"

section \<open>The writer\<close>

subsection \<open>Printing numbers on a stream\<close>

text \<open>\<open>operator<<\<close> for an \<open>int64_t\<close>: the decimal digits, after a \<open>-\<close> when negative.\<close>

function dec :: "int \<Rightarrow> string" where
  "dec i =
     (if i < 10 then [digit_char (nat i)] else dec (i div 10) @ [digit_char (nat (i mod 10))])"
  by pat_completeness auto
termination
  by (relation "measure nat") auto

declare dec.simps [simp del]

definition print_int64 :: "64 word \<Rightarrow> string" where
  "print_int64 i = (if sint i < 0 then ''-'' @ dec (- sint i) else dec (sint i))"

text \<open>
  \<open>operator<<\<close> for a \<open>double\<close> on a stream with precision \<open>P\<close> and no other flag: the
  conversion \<open>%g\<close> of \<open>printf\<close>.  The value \<open>num / den\<close> is rounded to \<open>P\<close> significant
  decimal digits (to nearest, ties to even); with \<open>X\<close> the decimal exponent of the
  result, the style is scientific when \<open>X < -4\<close> or \<open>P \<le> X\<close> and fixed otherwise, and the
  zeros at the end of the fraction are removed.
\<close>

function exp10_up :: "int \<Rightarrow> int \<Rightarrow> int" where
  "exp10_up num den = (if den \<le> 0 \<or> num < 10 * den then 0 else 1 + exp10_up num (10 * den))"
  by pat_completeness auto
termination
  by (relation "measure (\<lambda>(num, den). nat (num - den))") auto

declare exp10_up.simps [simp del]

function exp10_down :: "int \<Rightarrow> int \<Rightarrow> int" where
  "exp10_down num den = (if num \<le> 0 \<or> den \<le> num then 0 else 1 + exp10_down (10 * num) den)"
  by pat_completeness auto
termination
  by (relation "measure (\<lambda>(num, den). nat (den - num))") auto

declare exp10_down.simps [simp del]

definition decimal_exponent :: "int \<Rightarrow> int \<Rightarrow> int" where
  "decimal_exponent num den = (if den \<le> num then exp10_up num den else - exp10_down num den)"

definition round_half_even :: "int \<Rightarrow> int \<Rightarrow> int" where
  "round_half_even n d =
     (if d < 2 * (n mod d) \<or> (2 * (n mod d) = d \<and> odd (n div d)) then n div d + 1
      else n div d)"

definition format_g :: "nat \<Rightarrow> bool \<Rightarrow> int \<Rightarrow> int \<Rightarrow> string" where
  "format_g P neg num den =
     (let X0 = decimal_exponent num den;
          s = int P - 1 - X0;
          d0 = (if 0 \<le> s then round_half_even (num * 10 ^ nat s) den
                else round_half_even num (den * 10 ^ nat (- s)));
          X = (if d0 = 10 ^ P then X0 + 1 else X0);
          d = (if d0 = 10 ^ P then 10 ^ (P - 1) else d0);
          sig = rev (dropWhile (\<lambda>c. c = CHR ''0'') (rev (dec d)))
      in (if neg then ''-'' else []) @
         (if X < - 4 \<or> int P \<le> X then
            take 1 sig @ (if 1 < length sig then ''.'' @ drop 1 sig else []) @ ''e'' @
            (if X < 0 then ''-'' else ''+'') @ (if \<bar>X\<bar> < 10 then ''0'' else []) @ dec \<bar>X\<bar>
          else if 0 \<le> X then
            take (nat X + 1) (sig @ replicate (nat X + 1) (CHR ''0'')) @
            (if nat X + 1 < length sig then ''.'' @ drop (nat X + 1) sig else [])
          else ''0.'' @ replicate (nat (- X - 1)) (CHR ''0'') @ sig))"

definition print_double :: "nat \<Rightarrow> double \<Rightarrow> string" where
  "print_double P d =
     (let b = uint d; sgn = (if fp_neg 53 11 b then ''-'' else []) in
      if fp_isnan 53 11 b then sgn @ ''nan''
      else if \<not> fp_isfinite 53 11 b then sgn @ ''inf''
      else if fp_num 53 11 b = 0 then sgn @ ''0''
      else format_g P (fp_neg 53 11 b) (fp_num 53 11 b) (fp_den 53 11 b))"

text \<open>A \<open>float\<close> is printed as the \<open>double\<close> of the same value.\<close>

definition print_float :: "nat \<Rightarrow> float \<Rightarrow> string" where
  "print_float P f = print_double P (float_to_double f)"

subsection \<open>The heuristics of the layout\<close>

definition is_identifier :: "string \<Rightarrow> bool" where
  "is_identifier s =
     (case c_str s of
        [] \<Rightarrow> False
      | c # cs \<Rightarrow>
          (c = CHR ''_'' \<or> in_range (CHR ''a'') (CHR ''z'') c \<or> in_range (CHR ''A'') (CHR ''Z'') c) \<and>
          list_all (\<lambda>c. c = CHR ''_'' \<or> in_range (CHR ''a'') (CHR ''z'') c \<or>
                        in_range (CHR ''A'') (CHR ''Z'') c \<or> in_range (CHR ''0'') (CHR ''9'') c) cs)"

definition is_simple :: "Config \<Rightarrow> bool" where
  "is_simple var =
     (if is_array var \<or> is_object var then False
      else if has_comments var then False
      else True)"

text \<open>The next three are called on arrays only, where \<open>as_array\<close> and \<open>array_size\<close>
  succeed.\<close>

definition is_all_numbers :: "Config \<Rightarrow> bool" where
  "is_all_numbers array = list_all is_number (array_impl (u array))"

definition is_simple_array :: "Config \<Rightarrow> bool" where
  "is_simple_array array =
     (if length (array_impl (u array)) \<le> 16 \<and> is_all_numbers array then True
      else if 4 < length (array_impl (u array)) then False
      else list_all is_simple (array_impl (u array)))"

definition has_pre_end_brace_comments :: "Config \<Rightarrow> bool" where
  "has_pre_end_brace_comments cfg = (has_comments cfg \<and> pre_end_brace (get_comments cfg) \<noteq> [])"

subsection \<open>struct Writer\<close>

text \<open>
  The stream \<open>_ss\<close> is the text written so far.  The file system is part of the state:
  \<open>w_fopen\<close> gives, for a path that cannot be opened for writing, the reason, and
  \<open>w_files\<close> are the files written so far, each with its contents.
\<close>

record Writer =
  w_doc :: "DocInfo option"
  w_options :: FormatOptions
  ss :: string
  w_fopen :: "string \<Rightarrow> string option"
  w_files :: "(string \<times> string) list"

definition put :: "string \<Rightarrow> Writer \<Rightarrow> Writer" where
  "put s w = w\<lparr>ss := ss w @ s\<rparr>"

definition write_indent :: "nat \<Rightarrow> Writer \<Rightarrow> Writer" where
  "write_indent indent w =
     (if compact (w_options w) then w
      else put (concat (replicate indent (indentation (w_options w)))) w)"

definition write_prefix_comments :: "nat \<Rightarrow> string list \<Rightarrow> Writer \<Rightarrow> Writer" where
  "write_prefix_comments indent cs w =
     (if \<not> write_comments (w_options w) then w
      else if cs \<noteq> [] then
        foldl (\<lambda>w c. put (c @ [LF]) (write_indent indent w)) (put [LF] w) cs
      else w)"

definition write_postfix_comments :: "nat \<Rightarrow> string list \<Rightarrow> Writer \<Rightarrow> Writer" where
  "write_postfix_comments indent cs w =
     (if \<not> write_comments (w_options w) then w
      else foldl (\<lambda>w c. put ('' '' @ c) w) w cs)"

definition write_pre_brace_comments :: "nat \<Rightarrow> string list \<Rightarrow> Writer \<Rightarrow> Writer" where
  "write_pre_brace_comments indent cs w = write_prefix_comments indent cs w"

text \<open>
  \<open>write_number\<close>.  The conversion \<open>(int64_t)val\<close> is \<open>double_to_int64\<close>; \<open>temp_ss\<close> is a
  fresh stream, of precision 6.
\<close>

definition write_number :: "double \<Rightarrow> Writer \<Rightarrow> error + Writer" where
  "write_number val w =
     (if double_eq (int64_to_double (double_to_int64 val)) val then
        Inr (put (print_int64 (double_to_int64 val)) w)
      else if double_isfinite val then
        (if double_eq (float_to_double (double_to_float val)) val then
           (if float_eq (fst (strtof (print_float 6 (double_to_float val)))) (double_to_float val)
            then Inr (put (print_float 6 (double_to_float val)) w)
            else Inr (put (print_float 8 (double_to_float val)) w))
         else
           (if double_eq (fst (strtod (print_double 6 val))) val
            then Inr (put (print_double 6 val) w)
            else Inr (put (print_double 16 val) w)))
      else if double_eq val double_infinity then
        (if \<not> inf_opt (w_options w) then
           Inl (RuntimeError (''Can'' @ [SQ] @ ''t encode infinity''))
         else Inr (put ''+inf'' w))
      else if double_eq val (double_neg double_infinity) then
        (if \<not> inf_opt (w_options w) then
           Inl (RuntimeError (''Can'' @ [SQ] @ ''t encode negative infinity''))
         else Inr (put ''-inf'' w))
      else
        (if \<not> nan_opt (w_options w) then
           Inl (RuntimeError (''Can'' @ [SQ] @ ''t encode NaN''))
         else Inr (put ''+NaN'' w)))"

text \<open>
  \<open>write_hex_digit\<close>: the operand of \<open><<\<close> is an \<open>unsigned\<close> in both branches, also
  \<open>'a' + num - 10\<close>, so a decimal number is printed in both.
\<close>

definition write_hex_digit :: "nat \<Rightarrow> Writer \<Rightarrow> error + Writer" where
  "write_hex_digit num w =
     (if \<not> num < 16 then Inl (Crash ''CONFIGURU_ASSERT(num < 16u)'')
      else if num < 10 then Inr (put (to_string num) w)
      else Inr (put (to_string (97 + num - 10)) w))"

definition write_hex_16 :: "nat \<Rightarrow> Writer \<Rightarrow> error + Writer" where
  "write_hex_16 n w =
     (case write_hex_digit ((n div 4096) mod 16) w of
        Inl e \<Rightarrow> Inl e
      | Inr w1 \<Rightarrow>
          (case write_hex_digit ((n div 256) mod 16) w1 of
             Inl e \<Rightarrow> Inl e
           | Inr w2 \<Rightarrow>
               (case write_hex_digit ((n div 16) mod 16) w2 of
                  Inl e \<Rightarrow> Inl e
                | Inr w3 \<Rightarrow> write_hex_digit (n mod 16) w3)))"

definition write_unicode_16 :: "nat \<Rightarrow> Writer \<Rightarrow> error + Writer" where
  "write_unicode_16 c w = write_hex_16 c (put ([BSL] @ ''u'') w)"

text \<open>The body of the loop of \<open>write_quoted_string\<close>.  A \<open>char\<close> is signed: the last
  test holds for the codes 0 to 31.\<close>

definition write_quoted_char :: "char \<Rightarrow> Writer \<Rightarrow> error + Writer" where
  "write_quoted_char c w =
     (if c = BSL then Inr (put [BSL, BSL] w)
      else if c = DQ then Inr (put [BSL, DQ] w)
      else if c = NUL then Inr (put ([BSL] @ ''0'') w)
      else if c = BSP then Inr (put ([BSL] @ ''b'') w)
      else if c = FF then Inr (put ([BSL] @ ''f'') w)
      else if c = LF then Inr (put ([BSL] @ ''n'') w)
      else if c = CR then Inr (put ([BSL] @ ''r'') w)
      else if c = TAB then Inr (put ([BSL] @ ''t'') w)
      else if 0 \<le> code c \<and> code c < 0x20 then write_unicode_16 (nat (code c)) w
      else Inr (put [c] w))"

fun write_quoted_chars :: "string \<Rightarrow> Writer \<Rightarrow> error + Writer" where
  "write_quoted_chars [] w = Inr w"
| "write_quoted_chars (c # cs) w =
     (case write_quoted_char c w of Inl e \<Rightarrow> Inl e | Inr w1 \<Rightarrow> write_quoted_chars cs w1)"

definition write_quoted_string :: "string \<Rightarrow> Writer \<Rightarrow> error + Writer" where
  "write_quoted_string str w =
     (case write_quoted_chars str (put [DQ] w) of Inl e \<Rightarrow> Inl e | Inr w1 \<Rightarrow> Inr (put [DQ] w1))"

definition write_verbatim_string :: "string \<Rightarrow> Writer \<Rightarrow> Writer" where
  "write_verbatim_string str w = put [DQ, DQ, DQ] (put str (put [DQ, DQ, DQ] w))"

text \<open>\<open>str.find(pat) != npos\<close>.\<close>

fun str_find :: "string \<Rightarrow> string \<Rightarrow> bool" where
  "str_find pat [] = (pat = [])"
| "str_find pat (c # cs) = (take (length pat) (c # cs) = pat \<or> str_find pat cs)"

definition LONG_LINE :: nat where
  "LONG_LINE = 240"

definition write_string :: "string \<Rightarrow> Writer \<Rightarrow> error + Writer" where
  "write_string str w =
     (if str_python_multiline (w_options w) \<and> str_find [LF] str \<and> \<not> length str < LONG_LINE \<and>
         \<not> str_find [DQ, DQ, DQ] str
      then Inr (write_verbatim_string str w)
      else write_quoted_string str w)"

definition write_key :: "string \<Rightarrow> Writer \<Rightarrow> error + Writer" where
  "write_key str w =
     (if identifiers_keys (w_options w) \<and> is_identifier str then Inr (put str w)
      else write_string str w)"

subsection \<open>Values\<close>

text \<open>
  \<open>write_value\<close>, \<open>write_object_contents\<close>, \<open>write\<close> and \<open>write_file\<close> call each other,
  and every cycle goes through \<open>write_value\<close>: the others take the \<open>write_value\<close> they
  call as their argument \<open>wv\<close>, and \<open>write_value\<close> closes the cycle with a bound \<open>n\<close> on
  the depth of the values; with the bound used up the result is \<open>None\<close>.  The loops
  over the elements of an array and the entries of an object are recursions on the
  elements left: \<open>i + 1 == array.size()\<close> holds when none is left after this one.
\<close>

type_synonym value_writer = "nat \<Rightarrow> Config \<Rightarrow> bool \<Rightarrow> bool \<Rightarrow> Writer \<Rightarrow> Writer result"

fun write_simple_elements :: "value_writer \<Rightarrow> nat \<Rightarrow> Config list \<Rightarrow> Writer \<Rightarrow> Writer result" where
  "write_simple_elements wv indent [] w = Some (Inr w)"
| "write_simple_elements wv indent (x # xs) w =
     (case wv (indent + 1) x False True w of
        None \<Rightarrow> None
      | Some (Inl e) \<Rightarrow> Some (Inl e)
      | Some (Inr w1) \<Rightarrow>
          write_simple_elements wv indent xs
            (if compact (w_options w1) then (if xs \<noteq> [] then put '','' w1 else w1)
             else if array_omit_comma (w_options w1) \<or> xs = [] then put '' '' w1
             else put '', '' w1))"

fun write_line_elements :: "value_writer \<Rightarrow> nat \<Rightarrow> Config list \<Rightarrow> Writer \<Rightarrow> Writer result" where
  "write_line_elements wv indent [] w = Some (Inr w)"
| "write_line_elements wv indent (x # xs) w =
     (case wv (indent + 1) x False True
             (write_indent (indent + 1)
                (write_prefix_comments (indent + 1) (prefix (get_comments x)) w)) of
        None \<Rightarrow> None
      | Some (Inl e) \<Rightarrow> Some (Inl e)
      | Some (Inr w1) \<Rightarrow>
          write_line_elements wv indent xs
            (if array_omit_comma (w_options w1) \<or> xs = [] then put [LF] w1
             else put ('','' @ [LF]) w1))"

text \<open>
  The loop over the entries of an object, in the order they are written in.  The
  separators follow \<open>array_omit_comma\<close>, as in the source.
\<close>

fun write_pairs ::
  "value_writer \<Rightarrow> nat \<Rightarrow> nat \<Rightarrow> (string \<times> Config Config_Entry) list \<Rightarrow> Writer \<Rightarrow> Writer result" where
  "write_pairs wv indent longest_key [] w = Some (Inr w)"
| "write_pairs wv indent longest_key (it # pairs) w =
     (case write_key (fst it)
             (write_indent indent
                (write_prefix_comments indent (prefix (get_comments (entry_value (snd it)))) w)) of
        Inl e \<Rightarrow> Some (Inl e)
      | Inr w1 \<Rightarrow>
          (case wv indent (entry_value (snd it)) False True
                  (if compact (w_options w1) then put '':'' w1
                   else if omit_colon_before_object (w_options w1) \<and>
                           is_object (entry_value (snd it)) \<and>
                           length (object_impl (u (entry_value (snd it)))) \<noteq> 0
                   then put '' '' w1
                   else put ('': '' @ replicate (longest_key - length (fst it)) (CHR '' '')) w1) of
             None \<Rightarrow> None
           | Some (Inl e) \<Rightarrow> Some (Inl e)
           | Some (Inr w2) \<Rightarrow>
               write_pairs wv indent longest_key pairs
                 (if compact (w_options w2) then (if pairs \<noteq> [] then put '','' w2 else w2)
                  else if array_omit_comma (w_options w2) \<or> pairs = [] then put [LF] w2
                  else put ('','' @ [LF]) w2)))"

text \<open>
  \<open>write_object_contents\<close>, called on objects only.  The entries of the \<open>std::map\<close> come
  in the order of their keys; without \<open>sort_keys\<close> they are sorted by their numbers
  \<open>nr\<close> (entries of equal number stay in the order of their keys here).
\<close>

definition write_object_contents :: "value_writer \<Rightarrow> nat \<Rightarrow> Config \<Rightarrow> Writer \<Rightarrow> Writer result" where
  "write_object_contents wv indent config w =
     (case write_pairs wv indent
             (foldl max 0 (map (\<lambda>it. length (fst it)) (object_impl (u config))))
             (if sort_keys (w_options w) then object_impl (u config)
              else sort_key (\<lambda>it. nr (snd it)) (object_impl (u config)))
             w of
        None \<Rightarrow> None
      | Some (Inl e) \<Rightarrow> Some (Inl e)
      | Some (Inr w1) \<Rightarrow>
          Some (Inr (write_pre_brace_comments indent (pre_end_brace (get_comments config)) w1)))"

text \<open>\<open>write\<close>: the writer it leaves, whose stream is the text returned.\<close>

definition write_with ::
  "value_writer \<Rightarrow> Config \<Rightarrow> FormatOptions \<Rightarrow> (string \<Rightarrow> string option) \<Rightarrow>
   (string \<times> string) list \<Rightarrow> Writer result" where
  "write_with wv config opts can_open written =
     (if implicit_top_object opts \<and> is_object config then
        write_object_contents wv 0 config
          \<lparr>w_doc = doc config, w_options = opts, ss = [], w_fopen = can_open, w_files = written\<rparr>
      else
        (case wv 0 config True True
                \<lparr>w_doc = doc config, w_options = opts, ss = [], w_fopen = can_open,
                 w_files = written\<rparr> of
           None \<Rightarrow> None
         | Some (Inl e) \<Rightarrow> Some (Inl e)
         | Some (Inr w) \<Rightarrow> Some (Inr (put [LF] w))))"

text \<open>\<open>write_file\<close> called by the writer \<open>w\<close>, with \<open>write_text_file\<close>.\<close>

definition write_file_with :: "value_writer \<Rightarrow> string \<Rightarrow> Config \<Rightarrow> Writer \<Rightarrow> Writer result" where
  "write_file_with wv path config w =
     (case write_with wv config (w_options w) (w_fopen w) (w_files w) of
        None \<Rightarrow> None
      | Some (Inl e) \<Rightarrow> Some (Inl e)
      | Some (Inr w') \<Rightarrow>
          (case w_fopen w (c_str path) of
             Some strerror \<Rightarrow>
               Some (Inl (RuntimeError (''Failed to open '' @ [SQ] @ c_str path @ [SQ] @
                                        '' for writing: '' @ strerror)))
           | None \<Rightarrow> Some (Inr (w\<lparr>w_files := w_files w' @ [(c_str path, ss w')]\<rparr>))))"

text \<open>
  \<open>write_value\<close>.  The two documents are compared as pointers: by their identity.  In
  a branch that has tested the tag, the conversions to \<open>bool\<close>, \<open>int64_t\<close> and \<open>double\<close>,
  \<open>as_string\<close>, \<open>as_array\<close>, \<open>array_size\<close> and \<open>object_size\<close> succeed and read the payload.
\<close>

primrec write_value :: "nat \<Rightarrow> value_writer" where
  "write_value 0 indent config write_prefix write_postfix w = None"
| "write_value (Suc n) indent config write_prefix write_postfix w =
     (if allow_macro (w_options w) \<and> doc config \<noteq> None \<and>
         map_option doc_id (doc config) \<noteq> map_option doc_id (w_doc w) then
        (case write_file_with (write_value n) (filename (the (doc config))) config w of
           None \<Rightarrow> None
         | Some (Inl e) \<Rightarrow> Some (Inl e)
         | Some (Inr w1) \<Rightarrow>
             Some (Inr (put (''#include <'' @ filename (the (doc config)) @ ''>'') w1)))
      else
        (let w0 = (if write_prefix
                   then write_prefix_comments indent (prefix (get_comments config)) w else w)
         in case
           (if is_null config then
              Some (Inr (put ''null'' w0))
            else if is_bool config then
              Some (Inr (put (if u_b (u config) then ''true'' else ''false'') w0))
            else if is_int config then
              Some (Inr (put (print_int64 (u_i (u config))) w0))
            else if is_float config then
              Some (write_number (u_f (u config)) w0)
            else if is_string config then
              Some (write_string (u_str (u config)) w0)
            else if is_array config then
              (if length (array_impl (u config)) = 0 \<and> \<not> has_pre_end_brace_comments config then
                 Some (Inr (put (if compact (w_options w) then ''[]'' else ''[ ]'') w0))
               else if compact (w_options w) \<or> is_simple_array config then
                 (case write_simple_elements (write_value n) indent (array_impl (u config))
                         (put (if compact (w_options w) then ''['' else ''[ '') w0) of
                    None \<Rightarrow> None
                  | Some (Inl e) \<Rightarrow> Some (Inl e)
                  | Some (Inr w1) \<Rightarrow>
                      Some (Inr (put '']''
                        (write_pre_brace_comments (indent + 1)
                           (pre_end_brace (get_comments config)) w1))))
               else
                 (case write_line_elements (write_value n) indent (array_impl (u config))
                         (put (''['' @ [LF]) w0) of
                    None \<Rightarrow> None
                  | Some (Inl e) \<Rightarrow> Some (Inl e)
                  | Some (Inr w1) \<Rightarrow>
                      Some (Inr (put '']''
                        (write_indent indent
                           (write_pre_brace_comments (indent + 1)
                              (pre_end_brace (get_comments config)) w1))))))
            else if is_object config then
              (if length (object_impl (u config)) = 0 \<and> \<not> has_pre_end_brace_comments config then
                 Some (Inr (put (if compact (w_options w) then ''{}'' else ''{ }'') w0))
               else
                 (case write_object_contents (write_value n) (indent + 1) config
                         (put (if compact (w_options w) then ''{'' else ''{'' @ [LF]) w0) of
                    None \<Rightarrow> None
                  | Some (Inl e) \<Rightarrow> Some (Inl e)
                  | Some (Inr w1) \<Rightarrow> Some (Inr (put ''}'' (write_indent indent w1)))))
            else Some (Inl (RuntimeError ''Cannot serialize Config''))) of
           None \<Rightarrow> None
         | Some (Inl e) \<Rightarrow> Some (Inl e)
         | Some (Inr w1) \<Rightarrow>
             Some (Inr (if write_postfix
                        then write_postfix_comments indent (postfix (get_comments config)) w1
                        else w1))))"

subsection \<open>The entry point\<close>

text \<open>
  \<open>write(config, options)\<close> of the namespace \<open>configuru\<close>, with the bound \<open>n\<close> on the
  depth of the values and the file system: the text returned.
\<close>

definition write_config ::
  "nat \<Rightarrow> (string \<Rightarrow> string option) \<Rightarrow> Config \<Rightarrow> FormatOptions \<Rightarrow> string result" where
  "write_config n can_open config opts =
     (case write_with (write_value n) config opts can_open [] of
        None \<Rightarrow> None
      | Some (Inl e) \<Rightarrow> Some (Inl e)
      | Some (Inr w) \<Rightarrow> Some (Inr (ss w)))"

text \<open>A file system where no file can be written.\<close>

definition read_only :: "string \<Rightarrow> string option" where
  "read_only path = Some ''Permission denied''"

section \<open>Notions used in the statements\<close>

text \<open>What the mutable lookup of an absent key stores under the key.\<close>

definition sentinel :: "Config \<Rightarrow> string \<Rightarrow> Config" where
  "sentinel c key =
     Config (U_bad_lookup \<lparr>bl_doc = doc c, bl_line = line c, bl_key = key,
                           bl_overwritten = False\<rparr>) None BAD_ENTRY None"

text \<open>The numbers an integer type of the given signedness and width represents.\<close>

definition in_range_IntT :: "IntT \<Rightarrow> int \<Rightarrow> bool" where
  "in_range_IntT t x =
     (if is_signed t then - (2 ^ (bits t - 1)) \<le> x \<and> x < 2 ^ (bits t - 1)
      else 0 \<le> x \<and> x < 2 ^ bits t)"

text \<open>The document \<open>{"a": 1, "b": 2}\<close>.\<close>

definition doc_a_b :: string where
  "doc_a_b = ''{'' @ [DQ] @ ''a'' @ [DQ] @ '': 1, '' @ [DQ] @ ''b'' @ [DQ] @ '': 2}''"

text \<open>The keys that the warnings of \<open>check_dangling\<close> are issued for, in their order.\<close>

definition dangling_keys :: "Config \<Rightarrow> string list" where
  "dangling_keys c = map snd (check_dangling c)"

text \<open>The document \<open>{"a": 1, "b": {"x": 2}}\<close>.\<close>

definition doc_a_bx :: string where
  "doc_a_bx = ''{'' @ [DQ] @ ''a'' @ [DQ] @ '': 1, '' @ [DQ] @ ''b'' @ [DQ] @ '': {'' @
              [DQ] @ ''x'' @ [DQ] @ '': 2}}''"

section \<open>Properties\<close>

subsection \<open>Auxiliary facts about the value model\<close>

lemma cfg_type_simps [simp]:
  "cfg_type (Config_int i) = Int'" "cfg_type (Config_string s) = String"
  "cfg_type (Config_bool b) = Bool" "cfg_type Config_null = Null"
  "cfg_type Config_uninit = Uninitialized" "cfg_type (Config_double f) = Float"
  "cfg_type (Config_object p) = Object" "cfg_type (Config_array p) = Array"
  by (simp_all add: cfg_type_def Config_int_def Config_string_def Config_bool_def Config_null_def
      Config_uninit_def Config_double_def Config_object_def Config_array_def)

lemma map_of_map_subscript_absent:
  "map_of m k = None \<Longrightarrow> map_of (map_subscript k m) k = Some default_entry"
  by (induction m) (auto split: if_splits)

lemma length_map_subscript_absent:
  "map_of m k = None \<Longrightarrow> length (map_subscript k m) = Suc (length m)"
  by (induction m) (auto split: if_splits)

lemma map_of_map_store:
  "map_of m k = Some e0 \<Longrightarrow> map_of (map_store k e m) k = Some e"
  by (induction m) (auto split: if_splits)

lemma length_map_store: "length (map_store k e m) = length m"
  by (induction m) auto

lemma map_store_mem:
  "map_of m k = Some e0 \<Longrightarrow> (k, e) \<in> set (map_store k e m)"
  by (induction m) (auto split: if_splits)

lemma map_subscript_again:
  "map_of m k = None \<Longrightarrow>
   map_subscript k (map_store k e (map_subscript k m)) = map_store k e (map_subscript k m)"
  by (induction m) (auto split: if_splits)

lemma map_of_after_insert:
  "map_of m k = None \<Longrightarrow> map_of (map_store k e (map_subscript k m)) k = Some e"
  by (simp add: map_of_map_store map_of_map_subscript_absent)

lemma map_store_twice: "map_store k e (map_store k e' m) = map_store k e m"
  by (induction m) auto

lemma as_object_Object: "cfg_type c = Object \<Longrightarrow> as_object c = Inr (object_impl (u c))"
  by (simp add: as_object_def assert_type_def)

lemma cfg_type_with_object_impl [simp]: "cfg_type (with_object_impl c m) = Object"
  by (simp add: with_object_impl_def cfg_type_def)

lemma object_impl_with_object_impl [simp]: "object_impl (u (with_object_impl c m)) = m"
  by (simp add: with_object_impl_def)

lemma subscript_absent:
  assumes "cfg_type c = Object" "map_of (object_impl (u c)) key = None"
  shows "subscript key c =
           Inr (with_object_impl c
                  (map_store key
                     (Config_Entry (sentinel c key) (word_of_nat (length (object_impl (u c)))) False)
                     (map_subscript key (object_impl (u c)))))"
  using assms
  by (simp add: subscript_def as_object_Object Let_def map_at_def map_of_map_subscript_absent
      default_entry_def Config_uninit_def sentinel_def length_map_subscript_absent)

lemma sentinel_read:
  "cfg_type (sentinel c key) = BadLookupType"
  "assert_type t (sentinel c key) =
     Inl (RuntimeError (where_cfg c @ ''Failed to find key '' @ [CHR 0x27] @ key @ [CHR 0x27]))"
  by (simp_all add: sentinel_def cfg_type_def assert_type_def missing_key_message_def
      where_cfg_def)

lemma as_integer_int32_5: "as_integer (IntT True 32) (Config_int 5) = Inr 5"
  by (simp add: as_integer_def assert_type_def cfg_type_def Config_int_def check_def
      IntT_value_def signed_take_bit_eq_take_bit_minus)

lemma check_dangling_object_mem:
  assumes "(k, e) \<in> set m" "\<not> accessed e"
  shows "(where_cfg (entry_value e), k) \<in> set (check_dangling (Config (U_object p m) d l cs))"
  using assms by (force simp: check_dangling.simps)


lemma dangling_unaccessed_entries:
  "list_all (\<lambda>p. \<not> accessed (snd p)) ob \<Longrightarrow>
   map snd (concat (map (\<lambda>p. if accessed (snd p) then check_dangling (entry_value (snd p))
                              else [(where_cfg (entry_value (snd p)), fst p)]) ob)) = map fst ob"
  by (induction ob) auto

lemma check_dangling_unaccessed:
  assumes "is_object c" and "list_all (\<lambda>p. \<not> accessed (snd p)) (object_impl (u c))"
  shows "dangling_keys c = map fst (object_impl (u c))"
proof -
  obtain uc dc lc cc where c: "c = Config uc dc lc cc"
    by (cases c)
  from assms(1) obtain a ob where uc: "uc = U_object a ob"
    by (cases uc) (simp_all add: c is_object_def cfg_type_def)
  from assms(2) have "list_all (\<lambda>p. \<not> accessed (snd p)) ob"
    by (simp add: c uc)
  then show ?thesis
    by (simp add: c uc dangling_keys_def check_dangling.simps dangling_unaccessed_entries)
qed

subsection \<open>Integer narrowing\<close>

lemma sint_word_of_int64:
  assumes "- (2 ^ 63) \<le> v" "v < 2 ^ 63"
  shows "sint (word_of_int v :: 64 word) = v"
proof -
  have "sint (word_of_int v :: 64 word) = signed_take_bit 63 v"
    by (simp add: sint_sbintrunc')
  also have "\<dots> = v"
    using assms by (rule signed_take_bit_int_eq_self)
  finally show ?thesis .
qed

lemma word_of_int_eq_iff64:
  assumes "- (2 ^ 63) \<le> v" "v < 2 ^ 63"
  shows "(word_of_int v = (x :: 64 word)) = (v = sint x)"
proof
  assume "word_of_int v = x"
  then have "sint x = sint (word_of_int v :: 64 word)" by simp
  then show "v = sint x" using sint_word_of_int64 [OF assms] by simp
next
  assume "v = sint x"
  then show "word_of_int v = x" by simp
qed

lemma cast_signed:
  assumes "0 < b" "b \<le> 64"
  shows "(word_of_int (signed_take_bit (b - 1) (sint x)) = (x :: 64 word)) =
         (- (2 ^ (b - 1)) \<le> sint x \<and> sint x < 2 ^ (b - 1))"
proof -
  let ?v = "signed_take_bit (b - 1) (sint x)"
  have p: "(2::int) ^ (b - 1) \<le> 2 ^ 63"
    using assms by (intro power_increasing) auto
  have "- (2 ^ (b - 1)) \<le> ?v" "?v < 2 ^ (b - 1)"
    by (simp_all add: signed_take_bit_int_greater_eq_minus_exp signed_take_bit_int_less_exp)
  with p have "- (2 ^ 63) \<le> ?v" "?v < 2 ^ 63"
    by linarith+
  then have "(word_of_int ?v = x) = (?v = sint x)"
    by (rule word_of_int_eq_iff64)
  then show ?thesis
    by (simp add: signed_take_bit_int_eq_self_iff)
qed

lemma cast_unsigned:
  assumes "b < 64"
  shows "(word_of_int (take_bit b (sint x)) = (x :: 64 word)) = (0 \<le> sint x \<and> sint x < 2 ^ b)"
proof -
  let ?v = "take_bit b (sint x)"
  have p: "(2::int) ^ b \<le> 2 ^ 63"
    using assms by (intro power_increasing) auto
  have "0 \<le> ?v" "?v < 2 ^ b"
    by simp_all
  with p have "- (2 ^ 63) \<le> ?v" "?v < 2 ^ 63"
    by linarith+
  then have "(word_of_int ?v = x) = (?v = sint x)"
    by (rule word_of_int_eq_iff64)
  then show ?thesis
    by (simp add: take_bit_int_eq_self_iff)
qed

lemma cast_IntT_in_range:
  assumes "0 < bits t" "bits t \<le> 64" "is_signed t \<or> bits t < 64"
  shows "(word_of_int (IntT_value t x) = x) = in_range_IntT t (sint x)"
proof (cases "is_signed t")
  case True
  then show ?thesis
    using cast_signed [of "bits t" x] assms by (simp add: IntT_value_def in_range_IntT_def)
next
  case False
  then show ?thesis
    using cast_unsigned [of "bits t" x] assms by (simp add: IntT_value_def in_range_IntT_def)
qed

lemma IntT_value_in_range:
  assumes "in_range_IntT t (sint x)"
  shows "IntT_value t x = sint x"
  using assms
  by (auto simp: IntT_value_def in_range_IntT_def signed_take_bit_int_eq_self_iff
      take_bit_int_eq_self_iff)

lemma as_integer_Int:
  assumes "cfg_type c = Int'" "0 < bits t" "bits t \<le> 64" "is_signed t \<or> bits t < 64"
  shows "as_integer t c =
           (if in_range_IntT t (sint (u_i (u c))) then Inr (sint (u_i (u c)))
            else Inl (on_error c ''Integer out of range''))"
  using assms(1) cast_IntT_in_range [OF assms(2-4)] IntT_value_in_range
  by (simp add: as_integer_def assert_type_def check_def)

lemma take_bit_sint_64: "take_bit 64 (sint (x :: 64 word)) = uint x"
proof -
  have "take_bit 64 (sint x) = take_bit 64 (signed_take_bit 63 (uint x))"
    by (simp add: sint_uint)
  also have "\<dots> = take_bit 64 (uint x)"
    by (simp add: take_bit_signed_take_bit)
  also have "\<dots> = uint x"
    by (simp add: take_bit_int_eq_self_iff uint_lt2p [of x, simplified])
  finally show ?thesis .
qed

section \<open>The claims\<close>

text \<open>
  C1.  Writing a parsed tree and parsing the text again does not always give a tree
  deep-equal to the first.  Under the default dialect \<open>CFG\<close> the document \<open>{}\<close> parses to
  the empty object; \<open>write\<close> under \<open>CFG\<close> prints the contents of a top-level object
  without its braces, so the text written is empty; and the empty text does not parse
  under \<open>CFG\<close>: \<open>Empty file\<close>.  Also the numbers are not kept: \<open>3.0\<close> parses to the
  float 3, which is written \<open>3\<close>, which parses to the integer 3, and \<open>deep_eq\<close> tells
  the two apart.
\<close>

theorem write_then_parse_loses_the_tree:
  "parse_string_named 10 no_files ''{}'' CFG ''doc'' =
     Some (Inr (Config (U_object 2 []) (Some (DocInfo 0 [] ''doc'')) 1 None)) \<and>
   write_config 10 read_only (Config (U_object 2 []) (Some (DocInfo 0 [] ''doc'')) 1 None) CFG =
     Some (Inr []) \<and>
   parse_string_named 10 no_files [] CFG ''doc'' =
     Some (Inl (ParseError 1 1 (''doc:1:1: Empty file'' @ [LF, LF] @ ''^''))) \<and>
   parse_string_named 10 no_files ''3.0'' CFG ''doc'' =
     Some (Inr (Config (U_f 0x4008000000000000) (Some (DocInfo 0 [] ''doc'')) 1 None)) \<and>
   write_config 10 read_only
       (Config (U_f 0x4008000000000000) (Some (DocInfo 0 [] ''doc'')) 1 None) CFG =
     Some (Inr (''3'' @ [LF])) \<and>
   parse_string_named 10 no_files (''3'' @ [LF]) CFG ''doc'' =
     Some (Inr (Config (U_i 3) (Some (DocInfo 0 [] ''doc'')) 1 None)) \<and>
   \<not> deep_eq (Config (U_f 0x4008000000000000) (Some (DocInfo 0 [] ''doc'')) 1 None)
              (Config (U_i 3) (Some (DocInfo 0 [] ''doc'')) 1 None)"
  by code_simp

text \<open>
  C2.  \<open>deep_eq\<close> is meant to be structural equality; for two arrays it should compare
  the elements pairwise.  The array loop of the code compares each element of the first
  array with itself: two arrays at different addresses are reported equal exactly when
  their lengths agree and every element of the first equals itself, whatever the second
  holds.  So \<open>[1]\<close> and \<open>[2]\<close> are deep-equal, although \<open>1\<close> and \<open>2\<close> are not.
\<close>

theorem deep_eq_array_ignores_second:
  "deep_eq (Config (U_array pa xs) da la ca) (Config (U_array pb ys) db lb cb) =
     (pa = pb \<or> (length xs = length ys \<and> list_all (\<lambda>x. deep_eq x x) xs)) \<and>
   deep_eq (Config (U_array 1 [Config_int 1]) None BAD_ENTRY None)
           (Config (U_array 2 [Config_int 2]) None BAD_ENTRY None) \<and>
   \<not> deep_eq (Config_int 1) (Config_int 2)"
  by (auto simp: deep_eq.simps Config_int_def)

text \<open>
  C3.  On an object \<open>c\<close> that does not hold \<open>key\<close> (and has fewer than \<open>2^32 - 1\<close>
  entries, so that the 32-bit entry number stored by the lookup is not \<open>BAD_ENTRY\<close>):
  after \<open>c[key] = 5\<close> both the mutable and the const lookup of \<open>key\<close> succeed and the
  value reads as the integer 5; and the result of the mutable lookup alone is the
  sentinel, on which every typed accessor fails with the message
  \<open>Failed to find key '<key>'\<close> (after the location of \<open>c\<close>).
\<close>

theorem sentinel_write_then_read:
  assumes "cfg_type c = Object" and "map_of (object_impl (u c)) key = None"
    and "length (object_impl (u c)) < 2 ^ 32 - 1"
  shows "(\<exists>c1 c2 c3 v.
           subscript_assign key (Config_int 5) c = Inr c1 \<and>
           subscript key c1 = Inr c2 \<and>
           as_integer (IntT True 32) (entry_ref key c2) = Inr 5 \<and>
           subscript_const key c1 = Inr (v, c3) \<and>
           as_integer (IntT True 32) v = Inr 5) \<and>
         (\<exists>c' e. subscript key c = Inr c' \<and>
           cfg_type (entry_ref key c') = BadLookupType \<and>
           e = RuntimeError (where_cfg c @ ''Failed to find key '' @ [CHR 0x27] @ key @ [CHR 0x27]) \<and>
           as_bool (entry_ref key c') = Inl e \<and>
           as_string (entry_ref key c') = Inl e \<and>
           as_integer t (entry_ref key c') = Inl e \<and>
           as_float (entry_ref key c') = Inl e \<and>
           as_double (entry_ref key c') = Inl e \<and>
           as_array (entry_ref key c') = Inl e \<and>
           as_object (entry_ref key c') = Inl e)"
proof -
  define m where "m = object_impl (u c)"
  define n :: "32 word" where "n = word_of_nat (length m)"
  define m1 where "m1 = map_store key (Config_Entry (Config_int 5) n False) (map_subscript key m)"
  define c1 where "c1 = with_object_impl c m1"
  define m2 where "m2 = map_store key (Config_Entry (Config_int 5) n True) m1"
  have absent: "map_of m key = None"
    using assms(2) by (simp add: m_def)
  have "unat n = length m"
    using assms(3) by (simp add: n_def m_def unat_of_nat take_bit_nat_eq_self)
  moreover have "unat BAD_ENTRY = 2 ^ 32 - 1"
    by (simp add: BAD_ENTRY_def)
  ultimately have n: "n \<noteq> BAD_ENTRY"
    using assms(3) by (auto simp: m_def)
  have s1: "subscript_assign key (Config_int 5) c = Inr c1"
    using assms
    by (simp add: subscript_assign_def subscript_absent assign_ref_def Let_def map_at_def
        map_of_after_insert sentinel_def assign_move_def Config_int_def map_store_twice
        with_object_impl_def c1_def m1_def n_def m_def)
  have at: "map_of m1 key = Some (Config_Entry (Config_int 5) n False)"
    unfolding m1_def using absent by (rule map_of_after_insert)
  have again: "map_subscript key m1 = m1"
    unfolding m1_def using absent by (rule map_subscript_again)
  have c1: "cfg_type c1 = Object" "object_impl (u c1) = m1"
    by (simp_all add: c1_def)
  have s2: "subscript key c1 = Inr (with_object_impl c1 m2)"
    using n by (simp add: subscript_def as_object_Object c1 Let_def again map_at_def at m2_def)
  have r2: "entry_ref key (with_object_impl c1 m2) = Config_int 5"
    using at by (simp add: entry_ref_def map_at_def map_of_map_store m2_def)
  have s3: "subscript_const key c1 = Inr (Config_int 5, with_object_impl c1 m2)"
    by (simp add: subscript_const_def as_object_Object c1 at m2_def)
  have first: "\<exists>c1 c2 c3 v.
           subscript_assign key (Config_int 5) c = Inr c1 \<and>
           subscript key c1 = Inr c2 \<and>
           as_integer (IntT True 32) (entry_ref key c2) = Inr 5 \<and>
           subscript_const key c1 = Inr (v, c3) \<and>
           as_integer (IntT True 32) v = Inr 5"
    using s1 s2 r2 s3 as_integer_int32_5 by metis
  define c' where
    "c' = with_object_impl c
            (map_store key (Config_Entry (sentinel c key) n False) (map_subscript key m))"
  have s4: "subscript key c = Inr c'"
    using assms(1,2) by (simp add: subscript_absent c'_def n_def m_def)
  have r4: "entry_ref key c' = sentinel c key"
    using absent by (simp add: entry_ref_def c'_def map_at_def map_of_after_insert)
  have second: "\<exists>c' e. subscript key c = Inr c' \<and>
           cfg_type (entry_ref key c') = BadLookupType \<and>
           e = RuntimeError (where_cfg c @ ''Failed to find key '' @ [CHR 0x27] @ key @ [CHR 0x27]) \<and>
           as_bool (entry_ref key c') = Inl e \<and>
           as_string (entry_ref key c') = Inl e \<and>
           as_integer t (entry_ref key c') = Inl e \<and>
           as_float (entry_ref key c') = Inl e \<and>
           as_double (entry_ref key c') = Inl e \<and>
           as_array (entry_ref key c') = Inl e \<and>
           as_object (entry_ref key c') = Inl e"
    using s4
    by (simp add: r4 sentinel_read as_bool_def as_string_def as_integer_def as_float_def
        as_double_def as_array_def as_object_def)
  from first second show ?thesis ..
qed

theorem sentinel_write_then_read_witness:
  "(\<exists>c1 c2 c3 v.
      subscript_assign ''missing'' (Config_int 5) (Config_object 0) = Inr c1 \<and>
      subscript ''missing'' c1 = Inr c2 \<and>
      as_integer (IntT True 32) (entry_ref ''missing'' c2) = Inr 5 \<and>
      subscript_const ''missing'' c1 = Inr (v, c3) \<and>
      as_integer (IntT True 32) v = Inr 5) \<and>
   (\<exists>c' e. subscript ''missing'' (Config_object 0) = Inr c' \<and>
      cfg_type (entry_ref ''missing'' c') = BadLookupType \<and>
      e = RuntimeError (''Failed to find key '' @ [CHR 0x27] @ ''missing'' @ [CHR 0x27]) \<and>
      as_bool (entry_ref ''missing'' c') = Inl e \<and>
      as_string (entry_ref ''missing'' c') = Inl e \<and>
      as_integer (IntT True 32) (entry_ref ''missing'' c') = Inl e \<and>
      as_float (entry_ref ''missing'' c') = Inl e \<and>
      as_double (entry_ref ''missing'' c') = Inl e \<and>
      as_array (entry_ref ''missing'' c') = Inl e \<and>
      as_object (entry_ref ''missing'' c') = Inl e)"
proof -
  have h: "cfg_type (Config_object 0) = Object"
    "map_of (object_impl (u (Config_object 0))) ''missing'' = None"
    "length (object_impl (u (Config_object 0))) < 2 ^ 32 - 1"
    by (simp_all add: Config_object_def cfg_type_def)
  have w: "where_cfg (Config_object 0) = []"
    by (simp add: where_cfg_def where_is_def Config_object_def)
  show ?thesis
    using sentinel_write_then_read [OF h, of "IntT True 32"] by (simp add: w)
qed

text \<open>
  C4.  The object parsed from \<open>{"a": 1, "b": 2}\<close>: after the read of \<open>a\<close> alone,
  \<open>check_dangling\<close> issues one warning, for the key \<open>b\<close>; after the reads of \<open>a\<close> and
  \<open>b\<close> it issues none.  The object parsed from \<open>{"a": 1, "b": {"x": 2}}\<close>: after the
  read of \<open>a\<close> alone there is one warning, for \<open>b\<close>, and none for the \<open>x\<close> below it;
  after the read of \<open>b\<close> as well there is one warning, for \<open>x\<close>.  In general, the
  warnings for an object are those of its entries in the order of the keys, where an
  entry that was accessed gives the warnings for its value, and an entry that was not
  accessed gives one warning, with the place of its value and its key, and nothing from
  inside the value; the warnings for an array are those for its elements; there is none
  for any other value.  So on an object none of whose entries was accessed the warnings
  are for the keys of the object, one each.
\<close>

theorem check_dangling_reports:
  "(case parse_string_named 10 no_files doc_a_b JSON ''doc'' of
      Some (Inr c) \<Rightarrow>
        (case subscript_const ''a'' c of
           Inr (a, c1) \<Rightarrow>
             dangling_keys c1 = [''b''] \<and>
             (case subscript_const ''b'' c1 of
                Inr (b, c2) \<Rightarrow> check_dangling c2 = []
              | Inl e \<Rightarrow> False)
         | Inl e \<Rightarrow> False)
    | _ \<Rightarrow> False) \<and>
   (case parse_string_named 10 no_files doc_a_bx JSON ''doc'' of
      Some (Inr c) \<Rightarrow>
        (case subscript_const ''a'' c of
           Inr (a, c1) \<Rightarrow>
             dangling_keys c1 = [''b''] \<and>
             (case subscript_const ''b'' c1 of
                Inr (b, c2) \<Rightarrow> dangling_keys c2 = [''x'']
              | Inl e \<Rightarrow> False)
         | Inl e \<Rightarrow> False)
    | _ \<Rightarrow> False) \<and>
   (\<forall>p ob d l cm.
      check_dangling (Config (U_object p ob) d l cm) =
        concat (map (\<lambda>it. if accessed (snd it) then check_dangling (entry_value (snd it))
                           else [(where_cfg (entry_value (snd it)), fst it)]) ob)) \<and>
   (\<forall>p a d l cm.
      check_dangling (Config (U_array p a) d l cm) = concat (map check_dangling a)) \<and>
   (\<forall>c. \<not> is_object c \<and> \<not> is_array c \<longrightarrow> check_dangling c = []) \<and>
   (\<forall>c. is_object c \<longrightarrow> list_all (\<lambda>p. \<not> accessed (snd p)) (object_impl (u c)) \<longrightarrow>
      dangling_keys c = map fst (object_impl (u c)))"
proof (intro conjI)
  show "case parse_string_named 10 no_files doc_a_b JSON ''doc'' of
      Some (Inr c) \<Rightarrow>
        (case subscript_const ''a'' c of
           Inr (a, c1) \<Rightarrow>
             dangling_keys c1 = [''b''] \<and>
             (case subscript_const ''b'' c1 of
                Inr (b, c2) \<Rightarrow> check_dangling c2 = []
              | Inl e \<Rightarrow> False)
         | Inl e \<Rightarrow> False)
    | _ \<Rightarrow> False"
    by code_simp
next
  show "case parse_string_named 10 no_files doc_a_bx JSON ''doc'' of
      Some (Inr c) \<Rightarrow>
        (case subscript_const ''a'' c of
           Inr (a, c1) \<Rightarrow>
             dangling_keys c1 = [''b''] \<and>
             (case subscript_const ''b'' c1 of
                Inr (b, c2) \<Rightarrow> dangling_keys c2 = [''x'']
              | Inl e \<Rightarrow> False)
         | Inl e \<Rightarrow> False)
    | _ \<Rightarrow> False"
    by code_simp
next
  show "\<forall>p ob d l cm.
      check_dangling (Config (U_object p ob) d l cm) =
        concat (map (\<lambda>it. if accessed (snd it) then check_dangling (entry_value (snd it))
                           else [(where_cfg (entry_value (snd it)), fst it)]) ob)"
    by (simp add: check_dangling.simps)
next
  show "\<forall>p a d l cm.
      check_dangling (Config (U_array p a) d l cm) = concat (map check_dangling a)"
    by (simp add: check_dangling.simps)
next
  show "\<forall>c. \<not> is_object c \<and> \<not> is_array c \<longrightarrow> check_dangling c = []"
  proof (intro allI impI)
    fix c
    assume a: "\<not> is_object c \<and> \<not> is_array c"
    obtain uc dc lc cc where c: "c = Config uc dc lc cc"
      by (cases c)
    from a show "check_dangling c = []"
      by (cases uc) (simp_all add: c check_dangling.simps is_object_def is_array_def cfg_type_def)
  qed
next
  show "\<forall>c. is_object c \<longrightarrow> list_all (\<lambda>p. \<not> accessed (snd p)) (object_impl (u c)) \<longrightarrow>
      dangling_keys c = map fst (object_impl (u c))"
    using check_dangling_unaccessed by blast
qed

text \<open>
  Two instances.  In \<open>{a: 1, b: {x: 2}}\<close> with \<open>a\<close> accessed and nothing else, the one
  warning is for \<open>b\<close>, with the place of its value.  In \<open>{a: {x: 1, y: [2]}}\<close> with
  \<open>a\<close> and \<open>y\<close> accessed, the one warning is for \<open>x\<close>.
\<close>

theorem check_dangling_reports_witness:
  "check_dangling (Config (U_object 1
       [(''a'', Config_Entry (Config_int 1) 0 True),
        (''b'', Config_Entry (Config (U_object 2
            [(''x'', Config_Entry (Config_int 2) 0 False)])
            (Some (DocInfo 0 [] ''doc'')) 7 None) 1 False)]) None BAD_ENTRY None) =
     [(''doc:7: '', ''b'')] \<and>
   check_dangling (Config (U_object 1
       [(''a'', Config_Entry (Config (U_object 2
            [(''x'', Config_Entry (Config_int 1) 0 False),
             (''y'', Config_Entry (Config (U_array 3 [Config_int 2]) None BAD_ENTRY None) 1 True)])
            None BAD_ENTRY None) 0 True)]) None BAD_ENTRY None) =
     [([], ''x'')]"
proof -
  note ob = check_dangling_reports [THEN conjunct2, THEN conjunct2, THEN conjunct1, rule_format]
  note ar = check_dangling_reports [THEN conjunct2, THEN conjunct2, THEN conjunct2,
      THEN conjunct1, rule_format]
  note sc = check_dangling_reports [THEN conjunct2, THEN conjunct2, THEN conjunct2,
      THEN conjunct2, THEN conjunct1, rule_format]
  have i: "check_dangling (Config_int k) = []" for k
    by (rule sc) (simp add: is_object_def is_array_def cfg_type_def Config_int_def)
  have w: "where_cfg (Config u' (Some (DocInfo 0 [] ''doc'')) 7 None) = ''doc:7: ''" for u'
    by code_simp
  have w0: "where_cfg (Config_int k) = []" for k
    by (simp add: where_cfg_def where_is_def Config_int_def)
  show ?thesis
    by (simp add: ob ar i w w0)
qed

text \<open>
  C5.  The default dialect \<open>CFG\<close> enforces the indentation, and the document \<open>a:\<close>,
  newline, tab, \<open>1\<close> parses to the object with the single value 1 under the key \<open>a\<close>.
  But the document without the tab, \<open>a:\<close>, newline, \<open>1\<close>, is parsed as well, to the
  same object, and no error is raised: after the colon of a key the white space is
  skipped by \<open>skip_white_ignore_comments\<close>, which drops the depth it has counted, so
  the \<open>skip_pre_white\<close> of \<open>parse_value\<close> has nothing left to skip and the test of
  \<open>parse_value\<close> on \<open>line_indentation\<close> does not fire.  The same holds for an entry
  after the first one: \<open>a: 1\<close>, newline, tab, \<open>b: 2\<close> and \<open>[\<close>, newline, tab, \<open>1\<close>,
  newline, \<open>2\<close>, newline, \<open>]\<close> are parsed.  The test works for the first element of
  an array that spans lines: \<open>a: [\<close>, newline, \<open>1\<close>, newline, \<open>]\<close> is refused.
\<close>

theorem indentation_not_enforced:
  "enforce_indentation CFG \<and>
   parse_string_named 10 no_files (''a:'' @ [LF, TAB] @ ''1'') CFG ''doc'' =
     Some (Inr (Config (U_object 1
        [(''a'', Config_Entry (Config (U_i 1) (Some (DocInfo 0 [] ''doc'')) 2 None) 0 False)])
        (Some (DocInfo 0 [] ''doc'')) 1 None)) \<and>
   parse_string_named 10 no_files (''a:'' @ [LF] @ ''1'') CFG ''doc'' =
     Some (Inr (Config (U_object 1
        [(''a'', Config_Entry (Config (U_i 1) (Some (DocInfo 0 [] ''doc'')) 2 None) 0 False)])
        (Some (DocInfo 0 [] ''doc'')) 1 None)) \<and>
   parse_string_named 10 no_files (''a:'' @ [LF, TAB, TAB, TAB] @ ''1'') CFG ''doc'' =
     Some (Inr (Config (U_object 1
        [(''a'', Config_Entry (Config (U_i 1) (Some (DocInfo 0 [] ''doc'')) 2 None) 0 False)])
        (Some (DocInfo 0 [] ''doc'')) 1 None)) \<and>
   parse_string_named 10 no_files (''a: 1'' @ [LF, TAB] @ ''b: 2'') CFG ''doc'' =
     Some (Inr (Config (U_object 1
        [(''a'', Config_Entry (Config (U_i 1) (Some (DocInfo 0 [] ''doc'')) 1 None) 0 False),
         (''b'', Config_Entry (Config (U_i 2) (Some (DocInfo 0 [] ''doc'')) 2 None) 1 False)])
        (Some (DocInfo 0 [] ''doc'')) 1 None)) \<and>
   parse_string_named 10 no_files (''['' @ [LF, TAB] @ ''1'' @ [LF] @ ''2'' @ [LF] @ '']'') CFG ''doc'' =
     Some (Inr (Config (U_array 2
        [Config (U_i 1) (Some (DocInfo 0 [] ''doc'')) 2 None,
         Config (U_i 2) (Some (DocInfo 0 [] ''doc'')) 3 None])
        (Some (DocInfo 0 [] ''doc'')) 1 None)) \<and>
   parse_string_named 10 no_files (''a: ['' @ [LF] @ ''1'' @ [LF] @ '']'') CFG ''doc'' =
     Some (Inl (ParseError 2 1
       (''doc:2:1: Bad indentation: expected 1 tabs, found 0'' @ [LF] @ ''1'' @ [LF] @ ''^'')))"
  by code_simp

text \<open>
  C6.  In an escape \<open>\uXXXX\<close> the letter digits do not count 10 to 15: \<open>parse_hex\<close>
  adds \<open>c - 'a'\<close> (and \<open>c - 'A'\<close>), which is 0 to 5.  So \<open>"\u00e9"\<close> is read as the
  code point \<open>0x49\<close>, the letter \<open>I\<close>, and not as \<open>0xE9\<close>, whose UTF-8 encoding is the
  two bytes \<open>C3 A9\<close>; the same for the capital digit.
\<close>

theorem unicode_escape_letter_digits:
  "parse_string_named 10 no_files ([DQ, BSL] @ ''u00e9'' @ [DQ]) JSON ''doc'' =
     Some (Inr (Config (U_str ''I'') (Some (DocInfo 0 [] ''doc'')) 1 None)) \<and>
   parse_string_named 10 no_files ([DQ, BSL] @ ''u00E9'' @ [DQ]) JSON ''doc'' =
     Some (Inr (Config (U_str ''I'') (Some (DocInfo 0 [] ''doc'')) 1 None)) \<and>
   fst (encode_utf8 0xE9) = [CHR 0xC3, CHR 0xA9]"
  by code_simp

text \<open>
  C7.  An integer read \<open>as_integer<IntT>\<close> of an integer value is meant to succeed
  exactly when the stored 64-bit signed value is representable in \<open>IntT\<close>, and it does
  so for every integer type but one: the test \<open>(int64_t)(IntT)_u.i == _u.i\<close> holds for
  every value when \<open>IntT\<close> is the unsigned 64-bit type.  So the unsigned 64-bit read
  never fails on an integer: it returns the stored bits as an unsigned number, and the
  read of \<open>-1\<close> gives \<open>2^64 - 1\<close>, where the claim has the error
  \<open>Integer out of range\<close>.  (The constructor from an unsigned 64-bit number refuses
  \<open>2^64 - 1\<close>.)  For the other integer types, of at most 64 bits, the read succeeds with
  the stored value exactly when the value is representable, and fails with
  \<open>Integer out of range\<close> otherwise.
\<close>

theorem unsigned_64_read_unchecked:
  "(\<forall>x d l cm. as_integer (IntT False 64) (Config (U_i x) d l cm) = Inr (uint x)) \<and>
   as_integer (IntT False 64) (Config_int (- 1)) = Inr 18446744073709551615 \<and>
   \<not> in_range_IntT (IntT False 64) (- 1) \<and>
   Config_unsigned_long_long 18446744073709551615 =
     Inl (RuntimeError ''Integer too large to fit into 63 bits'') \<and>
   as_integer (IntT False 32) (Config_int (- 1)) = Inl (RuntimeError ''Integer out of range'') \<and>
   (\<forall>t c. cfg_type c = Int' \<and> 0 < bits t \<and> bits t \<le> 64 \<and> (is_signed t \<or> bits t < 64) \<longrightarrow>
      as_integer t c =
        (if in_range_IntT t (sint (u_i (u c))) then Inr (sint (u_i (u c)))
         else Inl (on_error c ''Integer out of range'')))"
proof (intro conjI)
  show "\<forall>x d l cm. as_integer (IntT False 64) (Config (U_i x) d l cm) = Inr (uint x)"
    by (simp add: as_integer_def assert_type_def cfg_type_def check_def IntT_value_def
        take_bit_sint_64)
next
  show "as_integer (IntT False 64) (Config_int (- 1)) = Inr 18446744073709551615"
    by (simp add: as_integer_def assert_type_def cfg_type_def Config_int_def check_def
        IntT_value_def mask_eq_exp_minus_1)
next
  show "\<not> in_range_IntT (IntT False 64) (- 1)"
    by (simp add: in_range_IntT_def)
next
  show "Config_unsigned_long_long 18446744073709551615 =
     Inl (RuntimeError ''Integer too large to fit into 63 bits'')"
    by code_simp
next
  show "as_integer (IntT False 32) (Config_int (- 1)) = Inl (RuntimeError ''Integer out of range'')"
    by code_simp
next
  show "\<forall>t c. cfg_type c = Int' \<and> 0 < bits t \<and> bits t \<le> 64 \<and> (is_signed t \<or> bits t < 64) \<longrightarrow>
      as_integer t c =
        (if in_range_IntT t (sint (u_i (u c))) then Inr (sint (u_i (u c)))
         else Inl (on_error c ''Integer out of range''))"
    using as_integer_Int by blast
qed

text \<open>
  Instances of the last part: 300 is refused as an unsigned 8-bit number and read as a
  signed 32-bit number.
\<close>

theorem unsigned_64_read_unchecked_witness:
  "cfg_type (Config_int 300) = Int' \<and>
   as_integer (IntT False 8) (Config_int 300) = Inl (RuntimeError ''Integer out of range'') \<and>
   as_integer (IntT True 32) (Config_int 300) = Inr 300"
proof -
  note r = unsigned_64_read_unchecked [THEN conjunct2, THEN conjunct2, THEN conjunct2,
      THEN conjunct2, THEN conjunct2, rule_format]
  have t: "cfg_type (Config_int 300) = Int'"
    by (simp add: Config_int_def cfg_type_def)
  have s: "sint (u_i (u (Config_int 300))) = 300"
    by (simp add: Config_int_def)
  have d0: "as_integer (IntT False 8) (Config_int 300) =
      (if in_range_IntT (IntT False 8) (sint (u_i (u (Config_int 300))))
       then Inr (sint (u_i (u (Config_int 300))))
       else Inl (on_error (Config_int 300) ''Integer out of range''))"
    by (rule r) (simp add: t)
  have d: "as_integer (IntT False 8) (Config_int 300) = Inl (RuntimeError ''Integer out of range'')"
    unfolding d0 s
    by (simp add: in_range_IntT_def on_error_def where_cfg_def where_is_def Config_int_def)
  have e0: "as_integer (IntT True 32) (Config_int 300) =
      (if in_range_IntT (IntT True 32) (sint (u_i (u (Config_int 300))))
       then Inr (sint (u_i (u (Config_int 300))))
       else Inl (on_error (Config_int 300) ''Integer out of range''))"
    by (rule r) (simp add: t)
  have e: "as_integer (IntT True 32) (Config_int 300) = Inr 300"
    unfolding e0 s by (simp add: in_range_IntT_def)
  from t d e show ?thesis by simp
qed

text \<open>
  C8.  A decimal integer that starts with a zero is refused only when its value is not
  zero: the test is \<open>start[0] != '0' || unsigned_number == 0\<close>.  So \<open>00\<close> and \<open>000\<close>
  are parsed, as the integer 0, while \<open>01\<close> is refused.  And the value of a token that
  does not start with a zero is not always its base-10 reading: \<open>strtoll\<close> delivers
  \<open>2^63 - 1\<close> for every larger number, and its error is not looked at.
\<close>

theorem leading_zeros_accepted:
  "parse_string_named 10 no_files ''00'' JSON ''doc'' =
     Some (Inr (Config (U_i 0) (Some (DocInfo 0 [] ''doc'')) 1 None)) \<and>
   parse_string_named 10 no_files ''000'' JSON ''doc'' =
     Some (Inr (Config (U_i 0) (Some (DocInfo 0 [] ''doc'')) 1 None)) \<and>
   parse_string_named 10 no_files ''01'' JSON ''doc'' =
     Some (Inl (ParseError 1 3
       (''doc:1:3: Integer may not start with a zero'' @ [LF] @ ''01'' @ [LF] @ ''  ^''))) \<and>
   parse_string_named 10 no_files ''99999999999999999999'' JSON ''doc'' =
     Some (Inr (Config (U_i 9223372036854775807) (Some (DocInfo 0 [] ''doc'')) 1 None))"
  by code_simp

text \<open>
  C9.  An array of at most 16 numbers is written on one line also when its elements
  have comments: \<open>is_simple_array\<close> answers for it before it looks at a comment.  The
  array parsed from \<open>[1 // c\<close>, newline, \<open>2]\<close> under \<open>CFG\<close>, whose first element has the
  comment \<open>// c\<close>, is written on the single line \<open>[ 1 // c 2 ]\<close>, where the comment takes
  in the rest of the line: the text written does not parse.
\<close>

theorem commented_numbers_on_one_line:
  "(case parse_string_named 10 no_files (''[1 // c'' @ [LF] @ ''2]'') CFG ''doc'' of
      Some (Inr c) \<Rightarrow>
        is_array c \<and> \<not> compact CFG \<and> has_comments (hd (array_impl (u c))) \<and>
        write_config 10 read_only c CFG = Some (Inr (''[ 1 // c 2 ]'' @ [LF]))
    | _ \<Rightarrow> False) \<and>
   parse_string_named 10 no_files (''[ 1 // c 2 ]'' @ [LF]) CFG ''doc'' =
     Some (Inl (ParseError 1 1
       (''doc:1:1: Non-terminated array'' @ [LF] @ ''[ 1 // c 2 ]'' @ [LF] @ ''^'')))"
  by code_simp

text \<open>
  C10.  On an object \<open>c\<close> that does not hold \<open>k\<close>, the mutable lookup of \<open>k\<close> alone
  inserts an entry: \<open>has_key\<close> turns from false to true, \<open>object_size\<close> grows by one, the
  entry holds the sentinel, its accessed flag is false, and \<open>check_dangling\<close> reports
  \<open>k\<close>.
\<close>

theorem subscript_absent_inserts_sentinel:
  assumes "cfg_type c = Object" and "map_of (object_impl (u c)) k = None"
  shows "\<exists>c'. subscript k c = Inr c' \<and>
           has_key k c = Inr False \<and> has_key k c' = Inr True \<and>
           object_size c = Inr (length (object_impl (u c))) \<and>
           object_size c' = Inr (Suc (length (object_impl (u c)))) \<and>
           cfg_type (entry_ref k c') = BadLookupType \<and>
           accessed (map_at (object_impl (u c')) k) = False \<and>
           (where_cfg (entry_ref k c'), k) \<in> set (check_dangling c')"
proof -
  define m where "m = object_impl (u c)"
  define e where "e = Config_Entry (sentinel c k) (word_of_nat (length m)) False"
  define m' where "m' = map_store k e (map_subscript k m)"
  define c' where "c' = with_object_impl c m'"
  have absent: "map_of m k = None"
    using assms(2) by (simp add: m_def)
  have s: "subscript k c = Inr c'"
    using assms by (simp add: subscript_absent c'_def m'_def e_def m_def)
  have at: "map_of m' k = Some e"
    unfolding m'_def using absent by (rule map_of_after_insert)
  have mem: "(k, e) \<in> set m'"
    unfolding m'_def using map_of_map_subscript_absent [OF absent] by (rule map_store_mem)
  have len: "length m' = Suc (length m)"
    by (simp add: m'_def length_map_store length_map_subscript_absent absent)
  have c': "cfg_type c' = Object" "object_impl (u c') = m'"
    by (simp_all add: c'_def)
  have r: "entry_ref k c' = sentinel c k"
    by (simp add: entry_ref_def c' map_at_def at e_def)
  have "(where_cfg (entry_value e), k) \<in> set (check_dangling c')"
    unfolding c'_def with_object_impl_def
    by (rule check_dangling_object_mem [OF mem]) (simp add: e_def)
  then have d: "(where_cfg (entry_ref k c'), k) \<in> set (check_dangling c')"
    by (simp add: r e_def)
  show ?thesis
    using s assms absent at len c' r d
    by (auto simp: has_key_def object_size_def as_object_Object m_def [symmetric] map_at_def e_def
        sentinel_def cfg_type_def)
qed

theorem subscript_absent_inserts_sentinel_witness:
  "\<exists>c'. subscript ''k'' (Config_object 0) = Inr c' \<and>
     has_key ''k'' (Config_object 0) = Inr False \<and> has_key ''k'' c' = Inr True \<and>
     object_size (Config_object 0) = Inr 0 \<and>
     object_size c' = Inr (Suc 0) \<and>
     cfg_type (entry_ref ''k'' c') = BadLookupType \<and>
     accessed (map_at (object_impl (u c')) ''k'') = False \<and>
     (where_cfg (entry_ref ''k'' c'), ''k'') \<in> set (check_dangling c')"
proof -
  have h: "cfg_type (Config_object 0) = Object"
    "map_of (object_impl (u (Config_object 0))) ''k'' = None"
    by (simp_all add: Config_object_def cfg_type_def)
  have l: "length (object_impl (u (Config_object 0))) = 0"
    by (simp add: Config_object_def)
  show ?thesis
    using subscript_absent_inserts_sentinel [OF h] unfolding l .
qed

end
